theory Spec2Isabelle
  imports Complex_Main
begin

section \<open>Python values, exceptions and the host interface\<close>

text \<open>
  The three scripts are sequences of calls into the host application's scripting API
  (\<^verbatim>\<open>bpy\<close>) and into \<^verbatim>\<open>os\<close>. A script is modelled by the interaction it has with the
  host: the list of operator calls, method calls, attribute writes and prints it performs,
  in order, and the way it ends (normal return, or an exception that leaves the script).
  Whatever the script reads from the host is given by the host, a parameter of the model.
\<close>

text \<open>
  Exceptions. The scripts distinguish two classes in their handlers, \<^verbatim>\<open>RuntimeError\<close> and
  \<^verbatim>\<open>Exception\<close>, and raise \<^verbatim>\<open>FileNotFoundError\<close> themselves. \<open>BaseOnly\<close> stands for the
  exceptions that derive from \<^verbatim>\<open>BaseException\<close> but not from \<^verbatim>\<open>Exception\<close>
  (\<^verbatim>\<open>KeyboardInterrupt\<close>, \<^verbatim>\<open>SystemExit\<close>). \<open>msg e\<close> is \<^verbatim>\<open>str(e)\<close>.
\<close>

datatype exn_class = RuntimeError | FileNotFoundError | OtherException | BaseOnly

datatype exn = Exn (cls: exn_class) (msg: string)

definition is_RuntimeError :: "exn \<Rightarrow> bool" where
  "is_RuntimeError e \<longleftrightarrow> cls e = RuntimeError"

definition is_Exception :: "exn \<Rightarrow> bool" where
  "is_Exception e \<longleftrightarrow> cls e \<noteq> BaseOnly"

text \<open>
  References into the host's data: a root of the API (\<^verbatim>\<open>bpy.context\<close>, \<^verbatim>\<open>bpy.data\<close>), an
  object the host handed out, and the paths \<^verbatim>\<open>r.f\<close>, \<^verbatim>\<open>r[i]\<close> and \<^verbatim>\<open>r["k"]\<close> from there.
\<close>

datatype ref = Root string | Handle nat | Field ref string | Index ref nat | Key ref string

datatype val = VBool bool | VInt int | VFloat real | VStr string | VTup "val list" | VRef ref

text \<open>
  What a script does to the host, one constructor per kind of statement:
  \<open>Op name kwargs\<close> is \<^verbatim>\<open>bpy.ops.name(**kwargs)\<close>, \<open>Meth r name args kwargs\<close> is
  \<^verbatim>\<open>r.name(*args, **kwargs)\<close>, \<open>Os name args kwargs\<close> is \<^verbatim>\<open>os.name(*args, **kwargs)\<close>,
  \<open>SetAttr r v\<close> is the assignment \<^verbatim>\<open>r = v\<close> to an attribute path, and \<open>Print parts\<close> is a
  \<^verbatim>\<open>print\<close> of an f-string whose pieces are \<open>parts\<close>.
\<close>

datatype event =
    Op string "(string \<times> val) list"
  | Meth ref string "val list" "(string \<times> val) list"
  | Os string "val list" "(string \<times> val) list"
  | SetAttr ref val
  | Print "val list"

text \<open>
  The host. Every answer may depend on the moment it is asked, counted in interactions
  performed so far (the length of the trace); a call may raise (\<open>raises\<close>).
  \<open>file_in_dir\<close> is the value of \<^verbatim>\<open>"__file__" in dir()\<close> and \<open>dunder_file\<close> that of
  \<^verbatim>\<open>__file__\<close>. Attribute writes and prints are taken to succeed.
\<close>

record host =
  argv :: "string list"
  getcwd :: string
  abspath :: "string \<Rightarrow> string"
  isfile :: "string \<Rightarrow> bool"
  getsize :: "nat \<Rightarrow> string \<Rightarrow> nat"
  file_in_dir :: bool
  dunder_file :: string
  app_version :: "nat \<times> nat \<times> nat"
  raises :: "nat \<Rightarrow> event \<Rightarrow> exn option"
  returns :: "nat \<Rightarrow> event \<Rightarrow> ref"
  get_ref :: "nat \<Rightarrow> ref \<Rightarrow> ref"
  get_refs :: "nat \<Rightarrow> ref \<Rightarrow> ref list"
  get_str :: "nat \<Rightarrow> ref \<Rightarrow> string"
  get_int :: "nat \<Rightarrow> ref \<Rightarrow> int"
  truthy :: "nat \<Rightarrow> ref \<Rightarrow> bool"
  is_none :: "nat \<Rightarrow> ref \<Rightarrow> bool"
  hasattr :: "nat \<Rightarrow> ref \<Rightarrow> string \<Rightarrow> bool"
  has_key :: "nat \<Rightarrow> ref \<Rightarrow> string \<Rightarrow> bool"

section \<open>Running a script: trace passing with exceptions\<close>

type_synonym 'a prog = "event list \<Rightarrow> (exn + 'a) \<times> event list"

definition ret :: "'a \<Rightarrow> 'a prog" where
  "ret x tr = (Inr x, tr)"

definition throw :: "exn \<Rightarrow> 'a prog" where
  "throw e tr = (Inl e, tr)"

definition bind :: "'a prog \<Rightarrow> ('a \<Rightarrow> 'b prog) \<Rightarrow> 'b prog" where
  "bind m f tr = (case m tr of (Inl e, tr') \<Rightarrow> (Inl e, tr') | (Inr x, tr') \<Rightarrow> f x tr')"

text \<open>An attribute write or a print: it happens and the script goes on.\<close>

definition emit :: "event \<Rightarrow> unit prog" where
  "emit ev tr = (Inr (), tr @ [ev])"

text \<open>A print whose pieces are read from the host at that moment.\<close>

definition say :: "(nat \<Rightarrow> val list) \<Rightarrow> unit prog" where
  "say parts tr = (Inr (), tr @ [Print (parts (length tr))])"

text \<open>A call into the host: it is made, and the host may raise from it.\<close>

definition invoke :: "host \<Rightarrow> event \<Rightarrow> unit prog" where
  "invoke H ev tr =
     (case raises H (length tr) ev of
        Some e \<Rightarrow> (Inl e, tr @ [ev])
      | None \<Rightarrow> (Inr (), tr @ [ev]))"

text \<open>A call whose result the script keeps (a new node, material or world).\<close>

definition invoke_ref :: "host \<Rightarrow> event \<Rightarrow> ref prog" where
  "invoke_ref H ev tr =
     (case raises H (length tr) ev of
        Some e \<Rightarrow> (Inl e, tr @ [ev])
      | None \<Rightarrow> (Inr (returns H (length tr) ev), tr @ [ev]))"

text \<open>Reading from the host leaves no trace.\<close>

definition ask :: "(nat \<Rightarrow> 'a) \<Rightarrow> 'a prog" where
  "ask q tr = (Inr (q (length tr)), tr)"

definition try_except :: "'a prog \<Rightarrow> (exn \<Rightarrow> bool) \<Rightarrow> (exn \<Rightarrow> 'a prog) \<Rightarrow> 'a prog" where
  "try_except body catches handler tr =
     (case body tr of
        (Inl e, tr') \<Rightarrow> (if catches e then handler e tr' else (Inl e, tr'))
      | (Inr x, tr') \<Rightarrow> (Inr x, tr'))"

definition only_if :: "bool \<Rightarrow> unit prog \<Rightarrow> unit prog" where
  "only_if b m = (if b then m else ret ())"

primrec steps :: "unit prog list \<Rightarrow> unit prog" where
  "steps [] = ret ()"
| "steps (m # ms) = bind m (\<lambda>_. steps ms)"

primrec for_each :: "'a list \<Rightarrow> ('a \<Rightarrow> unit prog) \<Rightarrow> unit prog" where
  "for_each [] body = ret ()"
| "for_each (x # xs) body = bind (body x) (\<lambda>_. for_each xs body)"

section \<open>Strings and paths\<close>

text \<open>
  Strings are byte lists; the few characters outside ASCII that the scripts print are
  written as their UTF-8 bytes. \<open>str_contains needle hay\<close> is \<^verbatim>\<open>needle in hay\<close>; for an
  ASCII needle the byte-wise test and Python's test on code points agree.
\<close>

definition startswith :: "string \<Rightarrow> string \<Rightarrow> bool" where
  "startswith s p \<longleftrightarrow> take (length p) s = p"

definition endswith :: "string \<Rightarrow> string \<Rightarrow> bool" where
  "endswith s p \<longleftrightarrow> length p \<le> length s \<and> drop (length s - length p) s = p"

fun str_contains :: "string \<Rightarrow> string \<Rightarrow> bool" where
  "str_contains needle [] = (needle = [])"
| "str_contains needle (c # cs) = (startswith (c # cs) needle \<or> str_contains needle cs)"

text \<open>\<^verbatim>\<open>os.path.join\<close> and \<^verbatim>\<open>os.path.dirname\<close> as \<^verbatim>\<open>posixpath\<close> defines them.\<close>

definition join2 :: "string \<Rightarrow> string \<Rightarrow> string" where
  "join2 path b =
     (if startswith b ''/'' then b
      else if path = [] \<or> endswith path ''/'' then path @ b
      else path @ ''/'' @ b)"

definition path_join :: "string \<Rightarrow> string list \<Rightarrow> string" where
  "path_join a ps = foldl join2 a ps"

definition dirname :: "string \<Rightarrow> string" where
  "dirname p =
     (let head = rev (dropWhile (\<lambda>c. c \<noteq> CHR ''/'') (rev p))
      in if head \<noteq> [] \<and> \<not> list_all (\<lambda>c. c = CHR ''/'') head
         then rev (dropWhile (\<lambda>c. c = CHR ''/'') (rev head))
         else head)"

definition newline :: string where "newline = [CHR 0x0A]"
definition check_mark :: string where "check_mark = [CHR 0xE2, CHR 0x9C, CHR 0x93]"
definition cross_mark :: string where "cross_mark = [CHR 0xE2, CHR 0x9C, CHR 0x97]"
definition warning_sign :: string where "warning_sign = [CHR 0xE2, CHR 0x9A, CHR 0xA0]"
definition right_arrow :: string where "right_arrow = [CHR 0xE2, CHR 0x86, CHR 0x92]"

text \<open>
  \<^verbatim>\<open>get_script_dir\<close> of \<^verbatim>\<open>blender_export_video.py\<close> and
  \<^verbatim>\<open>blender_export_existing_scene.py\<close> (the same text in both): the directory of
  \<^verbatim>\<open>__file__\<close> if that name is in \<^verbatim>\<open>dir()\<close>, else the directory of the first
  command-line argument that ends with \<^verbatim>\<open>.py\<close>, else the working directory.
\<close>

definition get_script_dir :: "host \<Rightarrow> string" where
  "get_script_dir H =
     (if file_in_dir H then dirname (abspath H (dunder_file H))
      else case find (\<lambda>arg. endswith arg ''.py'') (argv H) of
             Some arg \<Rightarrow> dirname (abspath H arg)
           | None \<Rightarrow> getcwd H)"

section \<open>blender_export_video.py\<close>

definition scene :: ref where
  "scene = Field (Root ''bpy.context'') ''scene''"

definition render_settings :: ref where
  "render_settings = Field scene ''render''"

definition image_settings :: ref where
  "image_settings = Field render_settings ''image_settings''"

definition render_op :: event where
  "render_op = Op ''render.render'' [(''animation'', VBool True), (''write_still'', VBool True)]"

definition denoiser :: string where
  "denoiser = ''OpenImageDenoiser''"

definition video_output_dir :: "host \<Rightarrow> string" where
  "video_output_dir H = path_join (dirname (get_script_dir H)) [''public'', ''videos'']"

definition png_output :: "host \<Rightarrow> string" where
  "png_output H = path_join (video_output_dir H) [''jalenedusei_animation_####.png'']"

text \<open>The body of the loop over \<^verbatim>\<open>scene.view_layers\<close> (lines 49 to 54).\<close>

definition disable_layer_denoising :: "host \<Rightarrow> ref \<Rightarrow> unit prog" where
  "disable_layer_denoising H view_layer =
     bind (ask (\<lambda>n. hasattr H n view_layer ''cycles'')) (\<lambda>has_cycles.
     bind (only_if has_cycles
             (emit (SetAttr (Field (Field view_layer ''cycles'') ''use_denoising'') (VBool False)))) (\<lambda>_.
     bind (ask (\<lambda>n. hasattr H n view_layer ''use_denoising'')) (\<lambda>has_flag.
     only_if has_flag (emit (SetAttr (Field view_layer ''use_denoising'') (VBool False))))))"

text \<open>
  \<^verbatim>\<open>main\<close>, lines 27 to 73: print the scene, write the render settings, create the output
  directory, set the output path. The result is \<^verbatim>\<open>output_dir\<close>.
\<close>

definition video_configure :: "host \<Rightarrow> string prog" where
  "video_configure H =
     bind (say (\<lambda>n. [VStr ''Scene: '', VStr (get_str H n (Field scene ''name''))])) (\<lambda>_.
     bind (say (\<lambda>n. [VStr ''Frame range: '', VInt (get_int H n (Field scene ''frame_start'')),
                      VStr '' to '', VInt (get_int H n (Field scene ''frame_end''))])) (\<lambda>_.
     bind (say (\<lambda>n. [VStr ''Total frames: '',
                      VInt (get_int H n (Field scene ''frame_end'')
                            - get_int H n (Field scene ''frame_start'') + 1)])) (\<lambda>_.
     bind (emit (SetAttr (Field render_settings ''film_transparent'') (VBool True))) (\<lambda>_.
     bind (emit (SetAttr (Field image_settings ''file_format'') (VStr ''PNG''))) (\<lambda>_.
     bind (emit (SetAttr (Field image_settings ''color_mode'') (VStr ''RGBA''))) (\<lambda>_.
     bind (emit (SetAttr (Field render_settings ''engine'') (VStr ''CYCLES''))) (\<lambda>_.
     bind (ask (\<lambda>n. truthy H n (Field scene ''cycles''))) (\<lambda>has_cycles.
     bind (only_if has_cycles
            (bind (emit (SetAttr (Field (Field scene ''cycles'') ''samples'') (VInt 64))) (\<lambda>_.
             bind (emit (SetAttr (Field (Field scene ''cycles'') ''use_denoising'') (VBool False))) (\<lambda>_.
             bind (ask (\<lambda>n. get_refs H n (Field scene ''view_layers''))) (\<lambda>view_layers.
             for_each view_layers (disable_layer_denoising H)))))) (\<lambda>_.
     bind (invoke H (Os ''makedirs'' [VStr (video_output_dir H)] [(''exist_ok'', VBool True)])) (\<lambda>_.
     bind (emit (SetAttr (Field render_settings ''filepath'') (VStr (png_output H)))) (\<lambda>_.
     bind (emit (Print [VStr (newline @ ''Rendering PNG sequence with transparent background...'')])) (\<lambda>_.
     bind (emit (Print [VStr ''Output: '', VStr (png_output H)])) (\<lambda>_.
     bind (say (\<lambda>n. [VStr ''Render engine: '', VStr (get_str H n (Field render_settings ''engine''))])) (\<lambda>_.
     bind (emit (Print [VStr ''This may take a while depending on frame count and quality settings...''])) (\<lambda>_.
     ret (video_output_dir H))))))))))))))))"

text \<open>The prints after a successful first render (lines 78 to 85).\<close>

definition video_success_prints :: "string \<Rightarrow> event list" where
  "video_success_prints output_dir =
     [Print [VStr (newline @ check_mark @ '' PNG sequence rendered successfully!'')],
      Print [VStr ''  Location: '', VStr output_dir],
      Print [VStr ''  Format: PNG with alpha channel''],
      Print [VStr (newline @ ''Next steps:'')],
      Print [VStr ''  1. Use ffmpeg to combine PNGs into video:''],
      Print [VStr ''     cd '', VStr output_dir],
      Print [VStr ''     ffmpeg -i jalenedusei_animation_%04d.png -c:v libvpx-vp9 -pix_fmt yuva420p -auto-alt-ref 0 jalenedusei.webm''],
      Print [VStr ''  2. Or use an online tool to convert PNG sequence to video with transparency'']]"

text \<open>The inner \<^verbatim>\<open>try\<close> of the fallback (lines 94 to 100): \<^verbatim>\<open>except Exception as e2\<close> prints only.\<close>

definition video_retry :: "host \<Rightarrow> string \<Rightarrow> unit prog" where
  "video_retry H output_dir =
     try_except
       (bind (invoke H render_op) (\<lambda>_.
        bind (emit (Print [VStr (newline @ check_mark @ '' PNG sequence rendered successfully with Eevee!'')])) (\<lambda>_.
        emit (Print [VStr ''  Location: '', VStr output_dir]))))
       is_Exception
       (\<lambda>e2.
        bind (emit (Print [VStr (newline @ cross_mark @ '' Render failed: ''), VStr (msg e2)])) (\<lambda>_.
        emit (Print [VStr (''Try rendering manually in Blender UI with Film '' @ right_arrow @ '' Transparent enabled'')])))"

text \<open>The handler \<^verbatim>\<open>except RuntimeError as e\<close> (lines 86 to 103).\<close>

definition video_handler :: "host \<Rightarrow> string \<Rightarrow> exn \<Rightarrow> unit prog" where
  "video_handler H output_dir e =
     (if str_contains denoiser (msg e) then
        bind (emit (Print [VStr (newline @ warning_sign @ '' Denoising error detected. Trying with Eevee render engine instead...'')])) (\<lambda>_.
        bind (emit (SetAttr (Field render_settings ''engine'') (VStr ''BLENDER_EEVEE''))) (\<lambda>_.
        bind (ask (\<lambda>n. truthy H n (Field scene ''eevee''))) (\<lambda>has_eevee.
        bind (only_if has_eevee
               (emit (SetAttr (Field (Field scene ''eevee'') ''taa_render_samples'') (VInt 64)))) (\<lambda>_.
        bind (emit (Print [VStr ''Rendering with Eevee...''])) (\<lambda>_.
        video_retry H output_dir)))))
      else
        bind (emit (Print [VStr (newline @ cross_mark @ '' Render failed: ''), VStr (msg e)])) (\<lambda>_.
        throw e))"

text \<open>The outer \<^verbatim>\<open>try\<close> (lines 76 to 103).\<close>

definition video_render :: "host \<Rightarrow> string \<Rightarrow> unit prog" where
  "video_render H output_dir =
     try_except
       (bind (invoke H render_op) (\<lambda>_. for_each (video_success_prints output_dir) emit))
       is_RuntimeError
       (video_handler H output_dir)"

definition video_main :: "host \<Rightarrow> unit prog" where
  "video_main H = bind (video_configure H) (video_render H)"

section \<open>blender_export_existing_scene.py\<close>

definition scene_out_path :: "host \<Rightarrow> string" where
  "scene_out_path H =
     path_join (dirname (get_script_dir H)) [''public'', ''models'', ''jaleneduseiwhite.glb'']"

definition scene_export_op :: "host \<Rightarrow> event" where
  "scene_export_op H =
     Op ''export_scene.gltf''
       [(''filepath'', VStr (scene_out_path H)),
        (''export_animations'', VBool True),
        (''export_cameras'', VBool True),
        (''export_lights'', VBool True),
        (''export_draco_mesh_compression_enable'', VBool False)]"

definition print_camera :: "host \<Rightarrow> ref \<Rightarrow> unit prog" where
  "print_camera H cam =
     say (\<lambda>n. [VStr ''  - '', VStr (get_str H n (Field cam ''name'')),
                VStr '' at '', VStr (get_str H n (Field cam ''location''))])"

definition print_light :: "host \<Rightarrow> ref \<Rightarrow> unit prog" where
  "print_light H light =
     say (\<lambda>n. [VStr ''  - '', VStr (get_str H n (Field light ''name'')),
                VStr '' ('', VStr (get_str H n (Field (Field light ''data'') ''type'')), VStr '')''])"

text \<open>
  \<^verbatim>\<open>main\<close> of the scene-export script. The last print shows the size in KB with two
  decimals (\<^verbatim>\<open>:.2f\<close>); the model keeps the number that is formatted.
\<close>

definition scene_main :: "host \<Rightarrow> unit prog" where
  "scene_main H =
     bind (invoke H (Os ''makedirs'' [VStr (dirname (scene_out_path H))] [(''exist_ok'', VBool True)])) (\<lambda>_.
     bind (say (\<lambda>n. [VStr ''Scene: '', VStr (get_str H n (Field scene ''name''))])) (\<lambda>_.
     bind (say (\<lambda>n. [VStr ''Frame range: '', VInt (get_int H n (Field scene ''frame_start'')),
                      VStr '' to '', VInt (get_int H n (Field scene ''frame_end''))])) (\<lambda>_.
     bind (say (\<lambda>n. [VStr ''Objects in scene: '',
                      VInt (int (length (get_refs H n (Field scene ''objects''))))])) (\<lambda>_.
     bind (ask (\<lambda>n. filter (\<lambda>obj. get_str H n (Field obj ''type'') = ''CAMERA'')
                        (get_refs H n (Field scene ''objects'')))) (\<lambda>cameras.
     bind (emit (Print [VStr ''Cameras found: '', VInt (int (length cameras))])) (\<lambda>_.
     bind (for_each cameras (print_camera H)) (\<lambda>_.
     bind (ask (\<lambda>n. filter (\<lambda>obj. get_str H n (Field obj ''type'') = ''LIGHT'')
                        (get_refs H n (Field scene ''objects'')))) (\<lambda>lights.
     bind (emit (Print [VStr ''Lights found: '', VInt (int (length lights))])) (\<lambda>_.
     bind (for_each lights (print_light H)) (\<lambda>_.
     bind (emit (Print [VStr (newline @ ''Exporting to: ''), VStr (scene_out_path H)])) (\<lambda>_.
     bind (invoke H (scene_export_op H)) (\<lambda>_.
     bind (emit (Print [VStr (newline @ check_mark @ '' Successfully exported GLB: ''),
                        VStr (scene_out_path H)])) (\<lambda>_.
     bind (invoke H (Os ''path.getsize'' [VStr (scene_out_path H)] [])) (\<lambda>_.
     say (\<lambda>n. [VStr ''  File size: '', VFloat (real (getsize H n (scene_out_path H)) / 1024),
                VStr '' KB''])))))))))))))))"

section \<open>blender_jalen_edusei_glass.py\<close>

definition bpy_context :: ref where
  "bpy_context = Root ''bpy.context''"

definition bpy_data :: ref where
  "bpy_data = Root ''bpy.data''"

definition active_object :: ref where
  "active_object = Field bpy_context ''active_object''"

definition convert_op :: event where
  "convert_op = Op ''object.convert'' [(''target'', VStr ''MESH'')]"

definition svg_import_op :: "string \<Rightarrow> event" where
  "svg_import_op svg_path = Op ''import_curve.svg'' [(''filepath'', VStr svg_path)]"

definition text_add_op :: event where
  "text_add_op =
     Op ''object.text_add'' [(''align'', VStr ''WORLD''), (''location'', VTup [VInt 0, VInt 0, VInt 0])]"

definition create_text_logo :: "host \<Rightarrow> ref prog" where
  "create_text_logo H =
     bind (invoke H text_add_op) (\<lambda>_.
     bind (ask (\<lambda>n. get_ref H n active_object)) (\<lambda>text_obj.
     bind (emit (SetAttr (Field text_obj ''name'') (VStr ''JalenEdusei_Text''))) (\<lambda>_.
     bind (emit (SetAttr (Field (Field text_obj ''data'') ''body'')
                   (VStr (''JALEN'' @ newline @ ''EDUSEI'')))) (\<lambda>_.
     bind (emit (SetAttr (Field (Field text_obj ''data'') ''size'') (VFloat 1.0))) (\<lambda>_.
     bind (emit (SetAttr (Field (Field text_obj ''data'') ''space_character'') (VFloat 0.12))) (\<lambda>_.
     bind (emit (SetAttr (Field (Field text_obj ''data'') ''space_line'') (VFloat 1.35))) (\<lambda>_.
     bind (ask (\<lambda>n. truthy H n (Field bpy_data ''fonts''))) (\<lambda>has_fonts.
     bind (only_if has_fonts
            (emit (SetAttr (Field (Field text_obj ''data'') ''font'')
                     (VRef (Index (Field bpy_data ''fonts'') 0))))) (\<lambda>_.
     bind (emit (SetAttr (Field (Field text_obj ''data'') ''extrude'') (VFloat 0.12))) (\<lambda>_.
     bind (emit (SetAttr (Field (Field text_obj ''data'') ''resolution_u'') (VInt 8))) (\<lambda>_.
     bind (emit (SetAttr (Field (Field text_obj ''data'') ''bevel_depth'') (VFloat 0.02))) (\<lambda>_.
     bind (emit (SetAttr (Field (Field text_obj ''data'') ''bevel_resolution'') (VInt 2))) (\<lambda>_.
     bind (invoke H convert_op) (\<lambda>_.
     ask (\<lambda>n. get_ref H n active_object)))))))))))))))"

definition bevel_spline :: "ref \<Rightarrow> unit prog" where
  "bevel_spline spline =
     bind (emit (SetAttr (Field spline ''bevel_depth'') (VFloat 0.08))) (\<lambda>_.
     emit (SetAttr (Field spline ''bevel_resolution'') (VInt 4)))"

definition create_from_svg :: "host \<Rightarrow> string \<Rightarrow> ref prog" where
  "create_from_svg H svg_path =
     bind (invoke H (svg_import_op svg_path)) (\<lambda>_.
     bind (ask (\<lambda>n. filter (\<lambda>ob. get_str H n (Field ob ''type'') = ''CURVE'')
                        (get_refs H n (Field bpy_context ''selected_objects'')))) (\<lambda>curve_objs.
     if curve_objs = [] then throw (Exn FileNotFoundError (''No curves in SVG: '' @ svg_path))
     else
     bind (invoke H (Op ''object.select_all'' [(''action'', VStr ''DESELECT'')])) (\<lambda>_.
     bind (for_each curve_objs (\<lambda>ob. invoke H (Meth ob ''select_set'' [VBool True] []))) (\<lambda>_.
     bind (emit (SetAttr (Field (Field (Field bpy_context ''view_layer'') ''objects'') ''active'')
                   (VRef (hd curve_objs)))) (\<lambda>_.
     bind (invoke H (Op ''object.join'' [])) (\<lambda>_.
     bind (ask (\<lambda>n. get_ref H n active_object)) (\<lambda>curve.
     bind (ask (\<lambda>n. get_refs H n (Field (Field curve ''data'') ''splines''))) (\<lambda>splines.
     bind (for_each splines bevel_spline) (\<lambda>_.
     bind (invoke H convert_op) (\<lambda>_.
     ask (\<lambda>n. get_ref H n active_object)))))))))))"

text \<open>\<^verbatim>\<open>bpy.app.version >= (4, 0, 0)\<close>: tuples compare lexicographically.\<close>

definition version_ge :: "nat \<times> nat \<times> nat \<Rightarrow> nat \<times> nat \<times> nat \<Rightarrow> bool" where
  "version_ge v w =
     (case (v, w) of ((a, b, c), (x, y, z)) \<Rightarrow>
        a > x \<or> (a = x \<and> (b > y \<or> (b = y \<and> c \<ge> z))))"

definition smart_project_op :: "host \<Rightarrow> event" where
  "smart_project_op H =
     (if version_ge (app_version H) (4, 0, 0)
      then Op ''uv.smart_project'' [(''angle_limit'', VFloat 1.15192), (''island_margin'', VFloat 0.02)]
      else Op ''uv.smart_project'' [(''angle'', VInt 66), (''margin'', VFloat 0.02)])"

text \<open>\<^verbatim>\<open>setup_scene\<close>, lines 70 to 84: the camera and the two area lights.\<close>

definition add_camera_and_lights :: "host \<Rightarrow> unit prog" where
  "add_camera_and_lights H =
     bind (invoke H (Op ''object.camera_add'' [(''location'', VTup [VInt 0, VInt 0, VInt 6])])) (\<lambda>_.
     bind (ask (\<lambda>n. get_ref H n active_object)) (\<lambda>cam.
     bind (emit (SetAttr (Field cam ''rotation_euler'') (VTup [VInt 0, VInt 0, VInt 0]))) (\<lambda>_.
     bind (invoke H (Op ''object.light_add''
             [(''type'', VStr ''AREA''), (''location'', VTup [VInt 3, VInt 2, VInt 4])])) (\<lambda>_.
     bind (ask (\<lambda>n. get_ref H n active_object)) (\<lambda>light1.
     bind (emit (SetAttr (Field (Field light1 ''data'') ''energy'') (VInt 300))) (\<lambda>_.
     bind (emit (SetAttr (Field (Field light1 ''data'') ''color'')
                   (VTup [VFloat 0.9, VFloat 0.85, VFloat 1.0]))) (\<lambda>_.
     bind (invoke H (Op ''object.light_add''
             [(''type'', VStr ''AREA''), (''location'', VTup [VFloat (- 2.5), VFloat (- 1.5), VInt 3])])) (\<lambda>_.
     bind (ask (\<lambda>n. get_ref H n active_object)) (\<lambda>light2.
     bind (emit (SetAttr (Field (Field light2 ''data'') ''energy'') (VInt 200))) (\<lambda>_.
     emit (SetAttr (Field (Field light2 ''data'') ''color'')
             (VTup [VFloat 0.7, VFloat 0.9, VFloat 1.0]))))))))))))"

text \<open>\<^verbatim>\<open>setup_scene\<close>, lines 86 to 115: the glass material and its node graph.\<close>

definition add_glass_material :: "host \<Rightarrow> ref \<Rightarrow> bool \<Rightarrow> unit prog" where
  "add_glass_material H logo_obj dark_glass =
     bind (invoke_ref H (Meth (Field bpy_data ''materials'') ''new'' [] [(''name'', VStr ''Glass_JalenEdusei'')])) (\<lambda>mat.
     bind (emit (SetAttr (Field mat ''use_nodes'') (VBool True))) (\<lambda>_.
     bind (invoke H (Meth (Field (Field mat ''node_tree'') ''nodes'') ''clear'' [] [])) (\<lambda>_.
     bind (invoke_ref H (Meth (Field (Field mat ''node_tree'') ''nodes'') ''new''
             [VStr ''ShaderNodeOutputMaterial''] [])) (\<lambda>out.
     bind (invoke_ref H (Meth (Field (Field mat ''node_tree'') ''nodes'') ''new''
             [VStr ''ShaderNodeBsdfPrincipled''] [])) (\<lambda>bsdf.
     bind (emit (SetAttr (Field bsdf ''location'') (VTup [VInt 0, VInt 0]))) (\<lambda>_.
     bind (emit (SetAttr (Field (Key (Field bsdf ''inputs'') ''Base Color'') ''default_value'')
                   (if dark_glass then VTup [VFloat 0.04, VFloat 0.04, VFloat 0.04, VFloat 1.0]
                    else VTup [VFloat 0.98, VFloat 0.98, VFloat 0.98, VFloat 1.0]))) (\<lambda>_.
     bind (emit (SetAttr (Field (Key (Field bsdf ''inputs'')
                     (if version_ge (app_version H) (4, 0, 0) then ''Transmission Weight''
                      else ''Transmission'')) ''default_value'') (VFloat 1.0))) (\<lambda>_.
     bind (emit (SetAttr (Field (Key (Field bsdf ''inputs'') ''Roughness'') ''default_value'') (VFloat 0.2))) (\<lambda>_.
     bind (emit (SetAttr (Field (Key (Field bsdf ''inputs'') ''IOR'') ''default_value'') (VFloat 1.15))) (\<lambda>_.
     bind (emit (SetAttr (Field (Key (Field bsdf ''inputs'') ''Alpha'') ''default_value'') (VFloat 0.95))) (\<lambda>_.
     bind (invoke_ref H (Meth (Field (Field mat ''node_tree'') ''nodes'') ''new''
             [VStr ''ShaderNodeLayerWeight''] [])) (\<lambda>layer.
     bind (emit (SetAttr (Field layer ''location'') (VTup [VInt (- 200), VInt 0]))) (\<lambda>_.
     bind (emit (SetAttr (Field (Key (Field layer ''inputs'') ''Blend'') ''default_value'') (VFloat 0.4))) (\<lambda>_.
     bind (invoke_ref H (Meth (Field (Field mat ''node_tree'') ''nodes'') ''new''
             [VStr ''ShaderNodeMixShader''] [])) (\<lambda>mix.
     bind (emit (SetAttr (Field mix ''location'') (VTup [VInt 220, VInt 0]))) (\<lambda>_.
     bind (invoke_ref H (Meth (Field (Field mat ''node_tree'') ''nodes'') ''new''
             [VStr ''ShaderNodeBsdfGlossy''] [])) (\<lambda>glossy.
     bind (emit (SetAttr (Field (Key (Field glossy ''inputs'') ''Roughness'') ''default_value'') (VFloat 0.1))) (\<lambda>_.
     bind (emit (SetAttr (Field (Key (Field glossy ''inputs'') ''Color'') ''default_value'')
                   (VTup [VInt 1, VInt 1, VInt 1, VInt 1]))) (\<lambda>_.
     bind (ask (\<lambda>n. if has_key H n (Field mix ''inputs'') ''Fac''
                     then Key (Field mix ''inputs'') ''Fac''
                     else Key (Field mix ''inputs'') ''Factor'')) (\<lambda>mix_fac.
     bind (invoke H (Meth (Field (Field mat ''node_tree'') ''links'') ''new''
             [VRef (Key (Field bsdf ''outputs'') ''BSDF''), VRef (Index (Field mix ''inputs'') 1)] [])) (\<lambda>_.
     bind (invoke H (Meth (Field (Field mat ''node_tree'') ''links'') ''new''
             [VRef (Key (Field glossy ''outputs'') ''BSDF''), VRef (Index (Field mix ''inputs'') 2)] [])) (\<lambda>_.
     bind (invoke H (Meth (Field (Field mat ''node_tree'') ''links'') ''new''
             [VRef (Key (Field layer ''outputs'') ''Facing''), VRef mix_fac] [])) (\<lambda>_.
     bind (invoke H (Meth (Field (Field mat ''node_tree'') ''links'') ''new''
             [VRef (Key (Field mix ''outputs'') ''Shader''), VRef (Key (Field out ''inputs'') ''Surface'')] [])) (\<lambda>_.
     invoke H (Meth (Field (Field logo_obj ''data'') ''materials'') ''append'' [VRef mat] [])))))))))))))))))))))))))"

text \<open>\<^verbatim>\<open>setup_scene\<close>, lines 117 to 128: the smart UV projection of the logo.\<close>

definition uv_unwrap :: "host \<Rightarrow> ref \<Rightarrow> unit prog" where
  "uv_unwrap H logo_obj =
     bind (invoke H (Op ''object.select_all'' [(''action'', VStr ''DESELECT'')])) (\<lambda>_.
     bind (invoke H (Meth logo_obj ''select_set'' [VBool True] [])) (\<lambda>_.
     bind (emit (SetAttr (Field (Field (Field bpy_context ''view_layer'') ''objects'') ''active'')
                   (VRef logo_obj))) (\<lambda>_.
     bind (invoke H (Op ''object.mode_set'' [(''mode'', VStr ''EDIT'')])) (\<lambda>_.
     bind (invoke H (Op ''mesh.select_all'' [(''action'', VStr ''SELECT'')])) (\<lambda>_.
     bind (invoke H (smart_project_op H)) (\<lambda>_.
     invoke H (Op ''object.mode_set'' [(''mode'', VStr ''OBJECT'')])))))))"

text \<open>\<^verbatim>\<open>setup_scene\<close>, lines 130 to 143: the world and its background nodes.\<close>

definition setup_world :: "host \<Rightarrow> bool \<Rightarrow> unit prog" where
  "setup_world H dark_glass =
     bind (ask (\<lambda>n. is_none H n (Field scene ''world''))) (\<lambda>no_world.
     bind (if no_world
           then bind (invoke_ref H (Meth (Field bpy_data ''worlds'') ''new'' [VStr ''World''] [])) (\<lambda>world.
                bind (emit (SetAttr (Field scene ''world'') (VRef world))) (\<lambda>_.
                ret world))
           else ask (\<lambda>n. get_ref H n (Field scene ''world''))) (\<lambda>world.
     bind (emit (SetAttr (Field world ''use_nodes'') (VBool True))) (\<lambda>_.
     bind (invoke H (Meth (Field (Field world ''node_tree'') ''nodes'') ''clear'' [] [])) (\<lambda>_.
     bind (invoke_ref H (Meth (Field (Field world ''node_tree'') ''nodes'') ''new''
             [VStr ''ShaderNodeOutputWorld''] [])) (\<lambda>out_w.
     bind (invoke_ref H (Meth (Field (Field world ''node_tree'') ''nodes'') ''new''
             [VStr ''ShaderNodeBackground''] [])) (\<lambda>bg.
     bind (emit (SetAttr (Field (Key (Field bg ''inputs'') ''Color'') ''default_value'')
                   (if dark_glass then VTup [VFloat 0.05, VFloat 0.05, VFloat 0.08, VFloat 1.0]
                    else VTup [VFloat 0.9, VFloat 0.9, VFloat 0.92, VFloat 1.0]))) (\<lambda>_.
     bind (emit (SetAttr (Field (Key (Field bg ''inputs'') ''Strength'') ''default_value'') (VFloat 0.3))) (\<lambda>_.
     invoke H (Meth (Field (Field world ''node_tree'') ''links'') ''new''
       [VRef (Key (Field bg ''outputs'') ''Background''),
        VRef (Key (Field out_w ''inputs'') ''Surface'')] [])))))))))"

definition setup_scene :: "host \<Rightarrow> ref \<Rightarrow> bool \<Rightarrow> unit prog" where
  "setup_scene H logo_obj dark_glass =
     bind (add_camera_and_lights H) (\<lambda>_.
     bind (add_glass_material H logo_obj dark_glass) (\<lambda>_.
     bind (uv_unwrap H logo_obj) (\<lambda>_.
     setup_world H dark_glass)))"

definition smooth_keyframe :: "ref \<Rightarrow> unit prog" where
  "smooth_keyframe kp =
     bind (emit (SetAttr (Field kp ''interpolation'') (VStr ''BEZIER''))) (\<lambda>_.
     bind (emit (SetAttr (Field kp ''handle_left_type'') (VStr ''FREE''))) (\<lambda>_.
     emit (SetAttr (Field kp ''handle_right_type'') (VStr ''FREE''))))"

definition smooth_fcurve :: "host \<Rightarrow> ref \<Rightarrow> unit prog" where
  "smooth_fcurve H fc =
     bind (ask (\<lambda>n. get_refs H n (Field fc ''keyframe_points''))) (\<lambda>kps.
     for_each kps smooth_keyframe)"

definition keyframe_insert :: "ref \<Rightarrow> int \<Rightarrow> event" where
  "keyframe_insert obj frame =
     Meth obj ''keyframe_insert'' [] [(''data_path'', VStr ''rotation_euler''), (''frame'', VInt frame)]"

definition add_rotation_animation :: "host \<Rightarrow> ref \<Rightarrow> int \<Rightarrow> unit prog" where
  "add_rotation_animation H logo_obj frame_end =
     bind (invoke H (Op ''object.empty_add''
             [(''type'', VStr ''PLAIN_AXES''), (''location'', VTup [VInt 0, VInt 0, VInt 0])])) (\<lambda>_.
     bind (ask (\<lambda>n. get_ref H n active_object)) (\<lambda>empty.
     bind (emit (SetAttr (Field empty ''name'') (VStr ''LogoAxis''))) (\<lambda>_.
     bind (emit (SetAttr (Field logo_obj ''parent'') (VRef empty))) (\<lambda>_.
     bind (emit (SetAttr (Field scene ''frame_end'') (VInt frame_end))) (\<lambda>_.
     bind (emit (SetAttr (Field empty ''rotation_euler'') (VTup [VInt 0, VInt 0, VInt 0]))) (\<lambda>_.
     bind (invoke H (keyframe_insert empty 1)) (\<lambda>_.
     bind (emit (SetAttr (Field empty ''rotation_euler'')
                   (VTup [VInt 0, VFloat 6.283185307, VInt 0]))) (\<lambda>_.
     bind (invoke H (keyframe_insert empty frame_end)) (\<lambda>_.
     bind (ask (\<lambda>n. get_refs H n
                  (Field (Field (Field empty ''animation_data'') ''action'') ''fcurves''))) (\<lambda>fcurves.
     for_each fcurves (smooth_fcurve H)))))))))))"

text \<open>
  \<^verbatim>\<open>main\<close>, lines 163 to 165: the arguments after the first \<^verbatim>\<open>--\<close>, and whether the first
  of them is taken as an SVG file.
\<close>

definition script_args :: "host \<Rightarrow> string list" where
  "script_args H =
     (if ''--'' \<in> set (argv H) then tl (dropWhile (\<lambda>a. a \<noteq> ''--'') (argv H)) else [])"

definition use_svg :: "host \<Rightarrow> bool" where
  "use_svg H \<longleftrightarrow>
     (case script_args H of
        [] \<Rightarrow> False
      | a # _ \<Rightarrow> endswith a ''.svg'' \<and> isfile H a)"

definition glass_out_path :: "host \<Rightarrow> string" where
  "glass_out_path H =
     path_join (dirname (get_script_dir H)) [''public'', ''models'', ''jalen_edusei_glass.glb'']"

definition glass_export_op :: "host \<Rightarrow> event" where
  "glass_export_op H =
     Op ''export_scene.gltf''
       [(''filepath'', VStr (glass_out_path H)),
        (''export_animations'', VBool True),
        (''export_cameras'', VBool True),
        (''export_draco_mesh_compression_enable'', VBool False)]"

text \<open>
  \<^verbatim>\<open>main\<close>, lines 178 to 206: render settings, output path, export, final prints. The
  script directory is found by the same statements as in \<open>get_script_dir\<close> above, written
  inline in the source.
\<close>

definition glass_export :: "host \<Rightarrow> unit prog" where
  "glass_export H =
     bind (emit (SetAttr (Field render_settings ''engine'') (VStr ''CYCLES''))) (\<lambda>_.
     bind (emit (SetAttr (Field (Field scene ''cycles'') ''samples'') (VInt 128))) (\<lambda>_.
     bind (emit (SetAttr (Field render_settings ''resolution_x'') (VInt 1920))) (\<lambda>_.
     bind (emit (SetAttr (Field render_settings ''resolution_y'') (VInt 1080))) (\<lambda>_.
     bind (invoke H (Os ''makedirs'' [VStr (dirname (glass_out_path H))] [(''exist_ok'', VBool True)])) (\<lambda>_.
     bind (invoke H (glass_export_op H)) (\<lambda>_.
     bind (emit (Print [VStr ''Done. JALEN EDUSEI glass logo with rotation is ready.''])) (\<lambda>_.
     emit (Print [VStr ''Exported GLB: '', VStr (glass_out_path H)]))))))))"

text \<open>
  \<^verbatim>\<open>main\<close>, lines 172 to 206: what is done with the logo object, whichever way it was made.
\<close>

definition glass_finish :: "host \<Rightarrow> ref \<Rightarrow> unit prog" where
  "glass_finish H logo =
     bind (invoke H (Op ''object.origin_set''
             [(''type'', VStr ''ORIGIN_GEOMETRY''), (''center'', VStr ''BOUNDS'')])) (\<lambda>_.
     bind (emit (SetAttr (Field logo ''location'') (VTup [VInt 0, VInt 0, VInt 0]))) (\<lambda>_.
     bind (setup_scene H logo True) (\<lambda>_.
     bind (add_rotation_animation H logo 120) (\<lambda>_.
     glass_export H))))"

definition glass_main :: "host \<Rightarrow> unit prog" where
  "glass_main H =
     bind (if use_svg H then create_from_svg H (hd (script_args H)) else create_text_logo H)
       (glass_finish H)"

text \<open>
  The script as the host runs it: the module-level \<^verbatim>\<open>read_factory_settings\<close> call
  (line 23), then \<^verbatim>\<open>main\<close>.
\<close>

definition read_factory_settings :: event where
  "read_factory_settings = Op ''wm.read_factory_settings'' [(''use_empty'', VBool True)]"

definition glass_script :: "host \<Rightarrow> unit prog" where
  "glass_script H = bind (invoke H read_factory_settings) (\<lambda>_. glass_main H)"

section \<open>Observing a run\<close>

text \<open>
  The attribute values as the script last wrote them: attribute writes update the store,
  every other interaction leaves it as it is.
\<close>

fun apply_event :: "(ref \<rightharpoonup> val) \<Rightarrow> event \<Rightarrow> (ref \<rightharpoonup> val)" where
  "apply_event st (SetAttr r v) = st(r \<mapsto> v)"
| "apply_event st (Op n k) = st"
| "apply_event st (Meth r n a k) = st"
| "apply_event st (Os n a k) = st"
| "apply_event st (Print p) = st"

definition written :: "event list \<Rightarrow> (ref \<rightharpoonup> val)" where
  "written tr = foldl apply_event Map.empty tr"

text \<open>The three settings that give the rendered frames an alpha channel.\<close>

definition alpha_ready :: "(ref \<rightharpoonup> val) \<Rightarrow> bool" where
  "alpha_ready st \<longleftrightarrow>
     st (Field render_settings ''film_transparent'') = Some (VBool True) \<and>
     st (Field image_settings ''file_format'') = Some (VStr ''PNG'') \<and>
     st (Field image_settings ''color_mode'') = Some (VStr ''RGBA'')"

definition count_renders :: "event list \<Rightarrow> nat" where
  "count_renders tr = length (filter (\<lambda>ev. ev = render_op) tr)"

definition no_render :: "event list \<Rightarrow> bool" where
  "no_render tr \<longleftrightarrow> list_all (\<lambda>ev. ev \<noteq> render_op) tr"

text \<open>
  What the handler does between the failed render and the retry (lines 88 to 93), when it
  starts at moment \<open>n\<close>: a warning, the engine switch, the Eevee samples if the scene has
  Eevee settings, a second message.
\<close>

definition eevee_switch :: "host \<Rightarrow> nat \<Rightarrow> event list" where
  "eevee_switch H n =
     [Print [VStr (newline @ warning_sign @ '' Denoising error detected. Trying with Eevee render engine instead...'')],
      SetAttr (Field render_settings ''engine'') (VStr ''BLENDER_EEVEE'')]
     @ (if truthy H (n + 2) (Field scene ''eevee'')
        then [SetAttr (Field (Field scene ''eevee'') ''taa_render_samples'') (VInt 64)] else [])
     @ [Print [VStr ''Rendering with Eevee...'']]"

text \<open>Every render found in a trace happens in a store where the alpha settings are in place.\<close>

fun renders_ok :: "(ref \<rightharpoonup> val) \<Rightarrow> event list \<Rightarrow> bool" where
  "renders_ok st [] = True"
| "renders_ok st (ev # evs) =
     ((ev = render_op \<longrightarrow> alpha_ready st) \<and> renders_ok (apply_event st ev) evs)"

definition denoise_write :: "event \<Rightarrow> bool" where
  "denoise_write ev \<longleftrightarrow> (\<exists>r. ev = SetAttr (Field r ''use_denoising'') (VBool False))"

definition keeps_alpha :: "event \<Rightarrow> bool" where
  "keeps_alpha ev \<longleftrightarrow>
     (case ev of
        SetAttr r v \<Rightarrow> r \<noteq> Field render_settings ''film_transparent''
                     \<and> r \<noteq> Field image_settings ''file_format''
                     \<and> r \<noteq> Field image_settings ''color_mode''
      | _ \<Rightarrow> True)"

text \<open>
  Two ways to speak about all runs of a program. \<open>emits P m\<close>: whatever the trace so far,
  \<open>m\<close> only appends to it, and only interactions that satisfy \<open>P\<close>. \<open>wp m Q E tr\<close>: run
  from \<open>tr\<close>, \<open>m\<close> ends in \<open>Q\<close> if it returns and in \<open>E\<close> if it raises.
\<close>

definition emits :: "(event \<Rightarrow> bool) \<Rightarrow> 'a prog \<Rightarrow> bool" where
  "emits P m \<longleftrightarrow> (\<forall>tr. \<exists>ext. snd (m tr) = tr @ ext \<and> list_all P ext)"

definition wp :: "'a prog \<Rightarrow> ('a \<Rightarrow> event list \<Rightarrow> bool) \<Rightarrow> (exn \<Rightarrow> event list \<Rightarrow> bool) \<Rightarrow> event list \<Rightarrow> bool" where
  "wp m Q E tr = (case m tr of (Inr x, tr') \<Rightarrow> Q x tr' | (Inl e, tr') \<Rightarrow> E e tr')"

section \<open>Example hosts\<close>

text \<open>
  A host that answers every question and never raises: Blender 4.2 started in
  \<^verbatim>\<open>/home/jalen/site\<close> on a scene with one view layer, a camera and a light; an action
  has three F-curves of two keyframe points each.
\<close>

definition studio :: host where
  "studio =
     \<lparr> argv = [''blender'', ''logo.blend'', ''--background'', ''--python'', ''scripts/blender_export_video.py''],
       getcwd = ''/home/jalen/site'',
       abspath = (\<lambda>p. if startswith p ''/'' then p else ''/home/jalen/site/'' @ p),
       isfile = (\<lambda>p. False),
       getsize = (\<lambda>n p. 2048),
       file_in_dir = False,
       dunder_file = [],
       app_version = (4, 2, 0),
       raises = (\<lambda>n ev. None),
       returns = (\<lambda>n ev. Handle n),
       get_ref = (\<lambda>n r. Handle n),
       get_refs = (\<lambda>n r. case r of
                     Field q f \<Rightarrow>
                       if f = ''view_layers'' then [Handle 0]
                       else if f = ''objects'' then [Handle 1, Handle 2]
                       else if f = ''fcurves'' then [Handle 10, Handle 11, Handle 12]
                       else if f = ''keyframe_points'' then [Index r 0, Index r 1]
                       else []
                   | _ \<Rightarrow> []),
       get_str = (\<lambda>n r. if r = Field (Handle 1) ''type'' then ''CAMERA''
                          else if r = Field (Handle 2) ''type'' then ''LIGHT''
                          else ''Scene''),
       get_int = (\<lambda>n r. if r = Field scene ''frame_end'' then 120 else 1),
       truthy = (\<lambda>n r. True),
       is_none = (\<lambda>n r. False),
       hasattr = (\<lambda>n r a. True),
       has_key = (\<lambda>n r k. True) \<rparr>"

text \<open>
  The same host with a renderer that fails: the first render (interaction 17 of the video
  script) with the denoiser error, any later one for lack of memory.
\<close>

definition denoiser_crash :: host where
  "denoiser_crash =
     studio \<lparr> raises := (\<lambda>n ev.
        if ev = render_op
        then Some (Exn RuntimeError
               (if n = 17 then ''OpenImageDenoiser error: failed to create device''
                else ''Out of memory''))
        else None) \<rparr>"

section \<open>More ways to speak about runs\<close>

text \<open>
  A host none of whose calls raises.
\<close>

definition quiet :: "host \<Rightarrow> bool" where
  "quiet H \<longleftrightarrow> (\<forall>n ev. raises H n ev = None)"

text \<open>
  \<open>succeeds m\<close>: whatever the trace so far, \<open>m\<close> returns normally. \<open>fails_only R m\<close>: an
  exception that leaves \<open>m\<close> satisfies \<open>R\<close>.
\<close>

definition succeeds :: "'a prog \<Rightarrow> bool" where
  "succeeds m \<longleftrightarrow> (\<forall>tr. \<exists>x tr'. m tr = (Inr x, tr'))"

definition is_print :: "event \<Rightarrow> bool" where
  "is_print ev \<longleftrightarrow> (case ev of Print parts \<Rightarrow> True | _ \<Rightarrow> False)"

text \<open>
  The interactions of the scene-export script that are not prints.
\<close>

definition scene_makedirs :: "host \<Rightarrow> event" where
  "scene_makedirs H = Os ''makedirs'' [VStr (dirname (scene_out_path H))] [(''exist_ok'', VBool True)]"

definition scene_getsize :: "host \<Rightarrow> event" where
  "scene_getsize H = Os ''path.getsize'' [VStr (scene_out_path H)] []"

definition scene_event :: "host \<Rightarrow> event \<Rightarrow> bool" where
  "scene_event H ev \<longleftrightarrow>
     is_print ev \<or> ev = scene_makedirs H \<or> ev = scene_export_op H \<or> ev = scene_getsize H"

text \<open>
  \<open>rel\<close> below the directory \<open>base\<close>, as \<^verbatim>\<open>os.path.join\<close> puts them together; the project root is
  the directory above the script directory.
\<close>

definition under_root :: "string \<Rightarrow> string \<Rightarrow> string" where
  "under_root base rel = (if base = [] \<or> endswith base ''/'' then base @ rel else base @ ''/'' @ rel)"

definition project_root :: "host \<Rightarrow> string" where
  "project_root H = dirname (get_script_dir H)"

text \<open>
  An export operator call writes to \<open>p\<close>; a write of the render output path sets it to \<open>p\<close>.
\<close>

definition exports_to :: "string \<Rightarrow> event \<Rightarrow> bool" where
  "exports_to p ev \<longleftrightarrow>
     (case ev of
        Op n kw \<Rightarrow> n = ''export_scene.gltf'' \<longrightarrow> map_of kw ''filepath'' = Some (VStr p)
      | _ \<Rightarrow> True)"

definition renders_to :: "string \<Rightarrow> event \<Rightarrow> bool" where
  "renders_to p ev \<longleftrightarrow>
     (case ev of
        SetAttr r v \<Rightarrow> r = Field render_settings ''filepath'' \<longrightarrow> v = VStr p
      | _ \<Rightarrow> True)"

definition fails_only :: "(exn \<Rightarrow> bool) \<Rightarrow> 'a prog \<Rightarrow> bool" where
  "fails_only R m \<longleftrightarrow> (\<forall>tr e tr'. m tr = (Inl e, tr') \<longrightarrow> R e)"

text \<open>
  An exception that some call of the host raises, and the one the logo script raises itself.
\<close>

definition host_raised :: "host \<Rightarrow> exn \<Rightarrow> bool" where
  "host_raised H e \<longleftrightarrow> (\<exists>n ev. raises H n ev = Some e)"

definition is_svg_import :: "event \<Rightarrow> bool" where
  "is_svg_import ev \<longleftrightarrow> (case ev of Op n kw \<Rightarrow> n = ''import_curve.svg'' | _ \<Rightarrow> False)"

definition no_curves_error :: "host \<Rightarrow> exn" where
  "no_curves_error H = Exn FileNotFoundError (''No curves in SVG: '' @ hd (script_args H))"

text \<open>
  Three command lines for the logo script, on the host \<open>studio\<close>: an SVG path that names no
  file, a PNG file that exists, and an SVG file that exists (and in which the host finds no
  curve).
\<close>

definition missing_svg :: host where
  "missing_svg =
     studio \<lparr> argv := [''blender'', ''--background'', ''--python'',
                        ''scripts/blender_jalen_edusei_glass.py'', ''--'', ''art/missing.svg''] \<rparr>"

definition png_arg :: host where
  "png_arg =
     studio \<lparr> argv := [''blender'', ''--background'', ''--python'',
                        ''scripts/blender_jalen_edusei_glass.py'', ''--'', ''art/logo.png''],
              isfile := (\<lambda>p. True) \<rparr>"

definition svg_arg :: host where
  "svg_arg =
     studio \<lparr> argv := [''blender'', ''--background'', ''--python'',
                        ''scripts/blender_jalen_edusei_glass.py'', ''--'', ''art/logo.svg''],
              isfile := (\<lambda>p. p = ''art/logo.svg'') \<rparr>"

text \<open>
  The two prints that end the logo script (lines 205 and 206).
\<close>

definition glass_final_prints :: "host \<Rightarrow> event list" where
  "glass_final_prints H =
     [Print [VStr ''Done. JALEN EDUSEI glass logo with rotation is ready.''],
      Print [VStr ''Exported GLB: '', VStr (glass_out_path H)]]"

section \<open>The steps of the logo pipeline\<close>

text \<open>
  The steps of the logo pipeline. \<open>step_of\<close> tells which step an interaction belongs to, if
  any: the geometry operators, the conversion to a mesh, the camera, the lights and the
  material's shader nodes, the smart UV projection, the world's shader nodes, the assignment
  of the parent, the keyframe insertions, the export.
\<close>

datatype step = Geometry | ToMesh | SceneObjects | UVUnwrap | WorldNodes | Parenting | Keyframing | Export

definition material_nodes :: "string list" where
  "material_nodes =
     [''ShaderNodeOutputMaterial'', ''ShaderNodeBsdfPrincipled'', ''ShaderNodeLayerWeight'',
      ''ShaderNodeMixShader'', ''ShaderNodeBsdfGlossy'']"

definition world_nodes :: "string list" where
  "world_nodes = [''ShaderNodeOutputWorld'', ''ShaderNodeBackground'']"

definition step_of :: "event \<Rightarrow> step option" where
  "step_of ev =
     (case ev of
        Op n kw \<Rightarrow>
          if n = ''object.text_add'' \<or> n = ''import_curve.svg'' then Some Geometry
          else if n = ''object.convert'' then Some ToMesh
          else if n = ''object.camera_add'' \<or> n = ''object.light_add'' then Some SceneObjects
          else if n = ''uv.smart_project'' then Some UVUnwrap
          else if n = ''export_scene.gltf'' then Some Export
          else None
      | Meth r n args kw \<Rightarrow>
          if n = ''keyframe_insert'' then Some Keyframing
          else if n = ''new'' \<and> args \<in> set (map (\<lambda>t. [VStr t]) material_nodes) then Some SceneObjects
          else if n = ''new'' \<and> args \<in> set (map (\<lambda>t. [VStr t]) world_nodes) then Some WorldNodes
          else None
      | SetAttr r v \<Rightarrow>
          (case r of Field q f \<Rightarrow> if f = ''parent'' then Some Parenting else None | _ \<Rightarrow> None)
      | Os n args kw \<Rightarrow> None
      | Print parts \<Rightarrow> None)"

text \<open>
  The order of the steps in the code, and the order the specification gives (the world nodes
  together with the camera, the lights and the material, before the UV unwrap).
\<close>

fun code_order :: "step \<Rightarrow> nat" where
  "code_order Geometry = 1"
| "code_order ToMesh = 2"
| "code_order SceneObjects = 3"
| "code_order UVUnwrap = 4"
| "code_order WorldNodes = 5"
| "code_order Parenting = 6"
| "code_order Keyframing = 7"
| "code_order Export = 8"

fun claimed_order :: "step \<Rightarrow> nat" where
  "claimed_order Geometry = 1"
| "claimed_order ToMesh = 2"
| "claimed_order SceneObjects = 3"
| "claimed_order WorldNodes = 3"
| "claimed_order UVUnwrap = 4"
| "claimed_order Parenting = 5"
| "claimed_order Keyframing = 6"
| "claimed_order Export = 7"

text \<open>
  \<open>follow ord p evs\<close> walks along a trace from step number \<open>p\<close>: every interaction that belongs
  to a step must belong to the current step or to the next one. The result is the number of
  the step reached, or \<open>None\<close> if the trace leaves the order.
\<close>

fun follow :: "(step \<Rightarrow> nat) \<Rightarrow> nat \<Rightarrow> event list \<Rightarrow> nat option" where
  "follow ord p [] = Some p"
| "follow ord p (ev # evs) =
     (case step_of ev of
        None \<Rightarrow> follow ord p evs
      | Some s \<Rightarrow> if ord s = p \<or> ord s = Suc p then follow ord (ord s) evs else None)"

text \<open>
  \<open>phase p m q\<close>: run from step \<open>p\<close>, the interactions of \<open>m\<close> follow the order of the code, and
  \<open>m\<close> is at step \<open>q\<close> when it returns.
\<close>

definition allowed :: "nat \<Rightarrow> event \<Rightarrow> bool" where
  "allowed p ev \<longleftrightarrow> (case step_of ev of None \<Rightarrow> True | Some s \<Rightarrow> code_order s = p \<or> code_order s = Suc p)"

definition after :: "nat \<Rightarrow> event \<Rightarrow> nat" where
  "after p ev = (case step_of ev of None \<Rightarrow> p | Some s \<Rightarrow> code_order s)"

definition phase :: "nat \<Rightarrow> 'a prog \<Rightarrow> nat \<Rightarrow> bool" where
  "phase p m q \<longleftrightarrow>
     (\<forall>tr. \<exists>ext. snd (m tr) = tr @ ext \<and>
        (case fst (m tr) of
           Inr x \<Rightarrow> follow code_order p ext = Some q
         | Inl e \<Rightarrow> follow code_order p ext \<noteq> None))"

definition ends_with :: "event list \<Rightarrow> 'a prog \<Rightarrow> bool" where
  "ends_with tail m \<longleftrightarrow> (\<forall>tr y t. m tr = (Inr y, t) \<longrightarrow> (\<exists>pre. t = pre @ tail))"

definition breaks_claimed_order :: "'a prog \<Rightarrow> bool" where
  "breaks_claimed_order m \<longleftrightarrow>
     (\<forall>tr. \<exists>ext. snd (m tr) = tr @ ext \<and> (\<forall>p. follow claimed_order p ext = None))"

text \<open>
  What the loop of lines 156 to 160 writes, started at moment \<open>n\<close>: for each F-curve, for
  each keyframe point the host lists for it at that moment, the interpolation and the two
  handle types.
\<close>

definition keyframe_writes :: "ref \<Rightarrow> event list" where
  "keyframe_writes kp =
     [SetAttr (Field kp ''interpolation'') (VStr ''BEZIER''),
      SetAttr (Field kp ''handle_left_type'') (VStr ''FREE''),
      SetAttr (Field kp ''handle_right_type'') (VStr ''FREE'')]"

fun smoothing :: "host \<Rightarrow> nat \<Rightarrow> ref list \<Rightarrow> event list" where
  "smoothing H n [] = []"
| "smoothing H n (fc # fcs) =
     concat (map keyframe_writes (get_refs H n (Field fc ''keyframe_points'')))
     @ smoothing H (n + 3 * length (get_refs H n (Field fc ''keyframe_points''))) fcs"

definition empty_add_op :: event where
  "empty_add_op =
     Op ''object.empty_add'' [(''type'', VStr ''PLAIN_AXES''), (''location'', VTup [VInt 0, VInt 0, VInt 0])]"

text \<open>
  The interactions of \<^verbatim>\<open>add_rotation_animation\<close> when none of its calls raises, started at
  moment \<open>n\<close>. The empty is the active object after \<^verbatim>\<open>empty_add\<close>. The second rotation is the
  literal of line 154, \<^verbatim>\<open>6.283185307\<close>.
\<close>

definition rotation_events :: "host \<Rightarrow> nat \<Rightarrow> ref \<Rightarrow> int \<Rightarrow> event list" where
  "rotation_events H n logo_obj frame_end =
     [empty_add_op,
      SetAttr (Field (get_ref H (Suc n) active_object) ''name'') (VStr ''LogoAxis''),
      SetAttr (Field logo_obj ''parent'') (VRef (get_ref H (Suc n) active_object)),
      SetAttr (Field scene ''frame_end'') (VInt frame_end),
      SetAttr (Field (get_ref H (Suc n) active_object) ''rotation_euler'') (VTup [VInt 0, VInt 0, VInt 0]),
      keyframe_insert (get_ref H (Suc n) active_object) 1,
      SetAttr (Field (get_ref H (Suc n) active_object) ''rotation_euler'')
        (VTup [VInt 0, VFloat 6.283185307, VInt 0]),
      keyframe_insert (get_ref H (Suc n) active_object) frame_end]
     @ smoothing H (n + 8)
         (get_refs H (n + 8)
            (Field (Field (Field (get_ref H (Suc n) active_object) ''animation_data'') ''action'') ''fcurves''))"

text \<open>
  \<open>yields R m\<close>: the trace satisfies \<open>R\<close> whenever \<open>m\<close> returns; \<open>ends_with tail m\<close>: it then
  ends with \<open>tail\<close>.
\<close>

definition yields :: "(event list \<Rightarrow> bool) \<Rightarrow> 'a prog \<Rightarrow> bool" where
  "yields R m \<longleftrightarrow> (\<forall>tr y t. m tr = (Inr y, t) \<longrightarrow> R t)"

definition has_rotation :: "host \<Rightarrow> event list \<Rightarrow> bool" where
  "has_rotation H t \<longleftrightarrow>
     (\<exists>pre logo post. t = pre @ rotation_events H (length pre) logo 120 @ post)"

section \<open>Rules for runs\<close>

lemmas prim_defs = emit_def say_def ret_def throw_def ask_def invoke_def invoke_ref_def

lemma bind_ret [simp]: "bind (ret x) f tr = f x tr"
  by (simp add: bind_def ret_def)

lemma bind_throw [simp]: "bind (throw e) f tr = (Inl e, tr)"
  by (simp add: bind_def throw_def)

lemma bind_emit [simp]: "bind (emit ev) f tr = f () (tr @ [ev])"
  by (simp add: bind_def emit_def)

lemma bind_say [simp]: "bind (say p) f tr = f () (tr @ [Print (p (length tr))])"
  by (simp add: bind_def say_def)

lemma bind_ask [simp]: "bind (ask q) f tr = f (q (length tr)) tr"
  by (simp add: bind_def ask_def)

lemma bind_invoke [simp]:
  "bind (invoke H ev) f tr =
     (case raises H (length tr) ev of Some e \<Rightarrow> (Inl e, tr @ [ev]) | None \<Rightarrow> f () (tr @ [ev]))"
  by (simp add: bind_def invoke_def split: option.splits)

lemma bind_invoke_ref [simp]:
  "bind (invoke_ref H ev) f tr =
     (case raises H (length tr) ev of Some e \<Rightarrow> (Inl e, tr @ [ev])
      | None \<Rightarrow> f (returns H (length tr) ev) (tr @ [ev]))"
  by (simp add: bind_def invoke_ref_def split: option.splits)

lemma bind_assoc [simp]: "bind (bind m f) g = bind m (\<lambda>x. bind (f x) g)"
  by (rule ext) (simp add: bind_def split: prod.splits sum.splits)

lemma bind_only_if [simp]:
  "bind (only_if b m) f tr = (if b then bind m f tr else f () tr)"
  by (simp add: only_if_def)

lemma wp_ret [simp]: "wp (ret x) Q E tr = Q x tr"
  by (simp add: wp_def ret_def)

lemma wp_throw [simp]: "wp (throw e) Q E tr = E e tr"
  by (simp add: wp_def throw_def)

lemma wp_bind [simp]: "wp (bind m f) Q E tr = wp m (\<lambda>x. wp (f x) Q E) E tr"
  by (simp add: wp_def bind_def split: prod.splits sum.splits)

lemma wp_emit [simp]: "wp (emit ev) Q E tr = Q () (tr @ [ev])"
  by (simp add: wp_def emit_def)

lemma wp_say [simp]: "wp (say p) Q E tr = Q () (tr @ [Print (p (length tr))])"
  by (simp add: wp_def say_def)

lemma wp_ask [simp]: "wp (ask q) Q E tr = Q (q (length tr)) tr"
  by (simp add: wp_def ask_def)

lemma wp_invoke [simp]:
  "wp (invoke H ev) Q E tr =
     (case raises H (length tr) ev of Some e \<Rightarrow> E e (tr @ [ev]) | None \<Rightarrow> Q () (tr @ [ev]))"
  by (simp add: wp_def invoke_def split: option.splits)

lemma wp_invoke_ref [simp]:
  "wp (invoke_ref H ev) Q E tr =
     (case raises H (length tr) ev of Some e \<Rightarrow> E e (tr @ [ev])
      | None \<Rightarrow> Q (returns H (length tr) ev) (tr @ [ev]))"
  by (simp add: wp_def invoke_ref_def split: option.splits)

lemma wp_only_if [simp]: "wp (only_if b m) Q E tr = (if b then wp m Q E tr else Q () tr)"
  by (simp add: only_if_def)

lemma wp_try_except [simp]:
  "wp (try_except body catches handler) Q E tr =
     wp body Q (\<lambda>e tr'. if catches e then wp (handler e) Q E tr' else E e tr') tr"
  by (simp add: wp_def try_except_def split: prod.splits sum.splits)

lemma wp_for_each_emit [simp]: "wp (for_each evs emit) Q E tr = Q () (tr @ evs)"
  by (induction evs arbitrary: tr) simp_all

lemma emitsD: "emits P m \<Longrightarrow> \<exists>ext. snd (m tr) = tr @ ext \<and> list_all P ext"
  by (simp add: emits_def)

lemma emits_ret: "emits P (ret x)"
  by (simp add: emits_def ret_def)

lemma emits_throw: "emits P (throw e)"
  by (simp add: emits_def throw_def)

lemma emits_ask: "emits P (ask q)"
  by (simp add: emits_def ask_def)

lemma emits_emit: "P ev \<Longrightarrow> emits P (emit ev)"
  by (simp add: emits_def emit_def)

lemma emits_say: "(\<And>n. P (Print (p n))) \<Longrightarrow> emits P (say p)"
  by (simp add: emits_def say_def)

lemma emits_invoke: "P ev \<Longrightarrow> emits P (invoke H ev)"
  by (simp add: emits_def invoke_def split: option.splits)

lemma emits_invoke_ref: "P ev \<Longrightarrow> emits P (invoke_ref H ev)"
  by (simp add: emits_def invoke_ref_def split: option.splits)

lemma emits_bind:
  assumes m: "emits P m" and f: "\<And>x. emits P (f x)"
  shows "emits P (bind m f)"
  unfolding emits_def
proof
  fix tr
  obtain a where a: "snd (m tr) = tr @ a" "list_all P a"
    using emitsD [OF m] by blast
  show "\<exists>ext. snd (bind m f tr) = tr @ ext \<and> list_all P ext"
  proof (cases "fst (m tr)")
    case (Inl e)
    then have "bind m f tr = (Inl e, tr @ a)"
      using a(1) by (cases "m tr") (simp add: bind_def)
    then show ?thesis using a(2) by auto
  next
    case (Inr x)
    obtain b where b: "snd (f x (tr @ a)) = (tr @ a) @ b" "list_all P b"
      using emitsD [OF f] by blast
    have "bind m f tr = f x (tr @ a)"
      using Inr a(1) by (cases "m tr") (simp add: bind_def)
    then have "snd (bind m f tr) = tr @ (a @ b)"
      using b(1) by simp
    moreover have "list_all P (a @ b)"
      using a(2) b(2) by simp
    ultimately show ?thesis by blast
  qed
qed

lemma emits_only_if: "(b \<Longrightarrow> emits P m) \<Longrightarrow> emits P (only_if b m)"
  by (simp add: only_if_def emits_ret)

lemma emits_if: "(b \<Longrightarrow> emits P m) \<Longrightarrow> (\<not> b \<Longrightarrow> emits P m') \<Longrightarrow> emits P (if b then m else m')"
  by simp

lemma emits_for_each: "(\<And>x. x \<in> set xs \<Longrightarrow> emits P (body x)) \<Longrightarrow> emits P (for_each xs body)"
  by (induction xs) (simp_all add: emits_ret emits_bind)

lemma emits_steps: "(\<And>m. m \<in> set ms \<Longrightarrow> emits P m) \<Longrightarrow> emits P (steps ms)"
  by (induction ms) (simp_all add: emits_ret emits_bind)

lemma emits_try_except:
  assumes body: "emits P body" and handler: "\<And>e. emits P (handler e)"
  shows "emits P (try_except body catches handler)"
  unfolding emits_def
proof
  fix tr
  obtain a where a: "snd (body tr) = tr @ a" "list_all P a"
    using emitsD [OF body] by blast
  show "\<exists>ext. snd (try_except body catches handler tr) = tr @ ext \<and> list_all P ext"
  proof (cases "fst (body tr)")
    case (Inr x)
    then have "try_except body catches handler tr = (Inr x, tr @ a)"
      using a(1) by (cases "body tr") (simp add: try_except_def)
    then show ?thesis using a(2) by auto
  next
    case (Inl e)
    show ?thesis
    proof (cases "catches e")
      case False
      then have "try_except body catches handler tr = (Inl e, tr @ a)"
        using Inl a(1) by (cases "body tr") (simp add: try_except_def)
      then show ?thesis using a(2) by auto
    next
      case True
      obtain b where b: "snd (handler e (tr @ a)) = (tr @ a) @ b" "list_all P b"
        using emitsD [OF handler] by blast
      have "try_except body catches handler tr = handler e (tr @ a)"
        using True Inl a(1) by (cases "body tr") (simp add: try_except_def)
      then have "snd (try_except body catches handler tr) = tr @ (a @ b)"
        using b(1) by simp
      moreover have "list_all P (a @ b)"
        using a(2) b(2) by simp
      ultimately show ?thesis by blast
    qed
  qed
qed

lemmas emits_rules = emits_ret emits_throw emits_ask emits_emit emits_say emits_invoke
  emits_invoke_ref emits_bind emits_only_if emits_if emits_for_each emits_try_except

section \<open>The example hosts, field by field\<close>

lemma studio_simps [simp]:
  "argv studio = [''blender'', ''logo.blend'', ''--background'', ''--python'', ''scripts/blender_export_video.py'']"
  "getcwd studio = ''/home/jalen/site''"
  "abspath studio = (\<lambda>p. if startswith p ''/'' then p else ''/home/jalen/site/'' @ p)"
  "isfile studio = (\<lambda>p. False)"
  "getsize studio = (\<lambda>n p. 2048)"
  "file_in_dir studio = False"
  "dunder_file studio = []"
  "app_version studio = (4, 2, 0)"
  "raises studio = (\<lambda>n ev. None)"
  "returns studio = (\<lambda>n ev. Handle n)"
  "get_ref studio = (\<lambda>n r. Handle n)"
  "get_refs studio = (\<lambda>n r. case r of
                     Field q f \<Rightarrow>
                       if f = ''view_layers'' then [Handle 0]
                       else if f = ''objects'' then [Handle 1, Handle 2]
                       else if f = ''fcurves'' then [Handle 10, Handle 11, Handle 12]
                       else if f = ''keyframe_points'' then [Index r 0, Index r 1]
                       else []
                   | _ \<Rightarrow> [])"
  "get_str studio = (\<lambda>n r. if r = Field (Handle 1) ''type'' then ''CAMERA''
                          else if r = Field (Handle 2) ''type'' then ''LIGHT''
                          else ''Scene'')"
  "get_int studio = (\<lambda>n r. if r = Field scene ''frame_end'' then 120 else 1)"
  "truthy studio = (\<lambda>n r. True)"
  "is_none studio = (\<lambda>n r. False)"
  "hasattr studio = (\<lambda>n r a. True)"
  "has_key studio = (\<lambda>n r k. True)"
  by (simp_all add: studio_def)

lemma denoiser_crash_simps [simp]:
  "raises denoiser_crash = (\<lambda>n ev.
        if ev = render_op
        then Some (Exn RuntimeError (if n = 17 then ''OpenImageDenoiser error: failed to create device'' else ''Out of memory''))
        else None)"
  "argv denoiser_crash = argv studio"
  "getcwd denoiser_crash = getcwd studio"
  "abspath denoiser_crash = abspath studio"
  "file_in_dir denoiser_crash = file_in_dir studio"
  "dunder_file denoiser_crash = dunder_file studio"
  "get_refs denoiser_crash = get_refs studio"
  "get_str denoiser_crash = get_str studio"
  "get_int denoiser_crash = get_int studio"
  "truthy denoiser_crash = truthy studio"
  "hasattr denoiser_crash = hasattr studio"
  by (simp_all add: denoiser_crash_def)

section \<open>Properties of blender_export_video.py\<close>

subsection \<open>The settings part never renders and leaves the alpha settings in place\<close>

lemmas video_defs = video_main_def video_configure_def video_render_def video_handler_def
  video_retry_def video_success_prints_def disable_layer_denoising_def

lemma layer_step:
  "\<exists>ext. disable_layer_denoising H vl tr = (Inr (), tr @ ext) \<and> list_all denoise_write ext"
  by (simp add: disable_layer_denoising_def only_if_def emit_def ret_def denoise_write_def)

lemma layer_loop:
  "\<exists>ext. for_each vls (disable_layer_denoising H) tr = (Inr (), tr @ ext) \<and> list_all denoise_write ext"
proof (induction vls arbitrary: tr)
  case Nil
  show ?case by (simp add: ret_def)
next
  case (Cons vl vls)
  obtain a where a: "disable_layer_denoising H vl tr = (Inr (), tr @ a)" "list_all denoise_write a"
    using layer_step by blast
  obtain b where b: "for_each vls (disable_layer_denoising H) (tr @ a) = (Inr (), (tr @ a) @ b)"
    "list_all denoise_write b"
    using Cons.IH by blast
  have "for_each (vl # vls) (disable_layer_denoising H) tr = (Inr (), tr @ (a @ b))"
    using a(1) b(1) by (simp add: bind_def)
  moreover have "list_all denoise_write (a @ b)"
    using a(2) b(2) by simp
  ultimately show ?case by blast
qed

lemma wp_layer_loop:
  assumes "\<And>ext. list_all denoise_write ext \<Longrightarrow> Q () (tr @ ext)"
  shows "wp (for_each vls (disable_layer_denoising H)) Q E tr"
  using layer_loop [of vls H tr] assms by (auto simp: wp_def)

lemma renders_ok_append [simp]:
  "renders_ok st (a @ b) \<longleftrightarrow> renders_ok st a \<and> renders_ok (foldl apply_event st a) b"
  by (induction a arbitrary: st) auto

lemma denoise_lookup:
  "list_all denoise_write ext \<Longrightarrow> (\<And>q. r \<noteq> Field q ''use_denoising'')
     \<Longrightarrow> foldl apply_event st ext r = st r"
proof (induction ext arbitrary: st)
  case Nil
  show ?case by simp
next
  case (Cons ev ext)
  from Cons.prems(1) obtain q where ev: "ev = SetAttr (Field q ''use_denoising'') (VBool False)"
    by (auto simp: denoise_write_def)
  from Cons.prems(1) have "list_all denoise_write ext" by simp
  then have "foldl apply_event (apply_event st ev) ext r = apply_event st ev r"
    using Cons.prems(2) by (rule Cons.IH)
  also have "apply_event st ev r = st r"
    using Cons.prems(2) [of q] by (simp add: ev)
  finally show ?case by simp
qed

lemma denoise_frame:
  "list_all denoise_write ext \<Longrightarrow> alpha_ready (foldl apply_event st ext) = alpha_ready st"
  by (simp add: alpha_ready_def denoise_lookup)

lemma no_render_simps [simp]:
  "no_render []"
  "no_render (ev # tr) \<longleftrightarrow> ev \<noteq> render_op \<and> no_render tr"
  "no_render (a @ b) \<longleftrightarrow> no_render a \<and> no_render b"
  by (simp_all add: no_render_def)

lemma denoise_no_render: "list_all denoise_write ext \<Longrightarrow> no_render ext"
  by (induction ext) (auto simp: denoise_write_def render_op_def)

lemma no_render_ok: "no_render tr \<Longrightarrow> renders_ok st tr"
  by (induction tr arbitrary: st) auto

lemma count_renders_simps [simp]:
  "count_renders [] = 0"
  "count_renders (ev # tr) = (if ev = render_op then Suc (count_renders tr) else count_renders tr)"
  "count_renders (a @ b) = count_renders a + count_renders b"
  by (simp_all add: count_renders_def)

lemma no_render_count: "no_render tr \<Longrightarrow> count_renders tr = 0"
  by (induction tr) auto

lemma video_configure_spec:
  "wp (video_configure H)
      (\<lambda>d tr. d = video_output_dir H \<and> no_render tr \<and> alpha_ready (written tr))
      (\<lambda>e tr. no_render tr) []"
  unfolding video_configure_def
  by (auto simp: written_def render_op_def alpha_ready_def denoise_lookup denoise_no_render
      split: option.splits intro!: wp_layer_loop)

lemma video_configure_result:
  assumes "fst (video_configure H []) = Inr d"
  shows "d = video_output_dir H" and "no_render (snd (video_configure H []))"
    and "alpha_ready (written (snd (video_configure H [])))"
  using video_configure_spec [of H] assms
  by (auto simp: wp_def split: prod.splits sum.splits)

lemma video_configure_no_render: "no_render (snd (video_configure H []))"
  using video_configure_spec [of H]
  by (auto simp: wp_def split: prod.splits sum.splits)

lemma video_main_eq:
  "fst (video_configure H []) = Inr d \<Longrightarrow> video_main H [] = video_render H d (snd (video_configure H []))"
  by (cases "video_configure H []") (simp add: video_main_def bind_def)

lemma video_main_eq_fail:
  "fst (video_configure H []) = Inl e \<Longrightarrow> video_main H [] = (Inl e, snd (video_configure H []))"
  by (cases "video_configure H []") (simp add: video_main_def bind_def)

subsection \<open>The render part, case by case\<close>

lemma video_retry_cases:
  "video_retry H d tr =
     (case raises H (length tr) render_op of
        None \<Rightarrow> (Inr (), tr @ [render_op,
                  Print [VStr (newline @ check_mark @ '' PNG sequence rendered successfully with Eevee!'')],
                  Print [VStr ''  Location: '', VStr d]])
      | Some e2 \<Rightarrow>
          if is_Exception e2
          then (Inr (), tr @ [render_op,
                  Print [VStr (newline @ cross_mark @ '' Render failed: ''), VStr (msg e2)],
                  Print [VStr (''Try rendering manually in Blender UI with Film '' @ right_arrow @ '' Transparent enabled'')]])
          else (Inl e2, tr @ [render_op]))"
  by (simp add: video_retry_def try_except_def prim_defs split: option.splits)

lemma video_retry_trace:
  "\<exists>tail. snd (video_retry H d tr) = tr @ render_op # tail \<and> no_render tail"
  by (simp add: video_retry_cases render_op_def split: option.splits)

lemma video_render_caught:
  assumes "raises H (length pre) render_op = Some e"
    and "is_RuntimeError e" and "str_contains denoiser (msg e)"
  shows "video_render H d pre = video_retry H d (pre @ render_op # eevee_switch H (Suc (length pre)))"
  using assms
  by (simp add: video_render_def video_handler_def try_except_def eevee_switch_def prim_defs)

lemma video_render_propagated:
  assumes "raises H (length pre) render_op = Some e"
    and "\<not> (is_RuntimeError e \<and> str_contains denoiser (msg e))"
  shows "fst (video_render H d pre) = Inl e"
    and "\<exists>tail. snd (video_render H d pre) = pre @ render_op # tail \<and> no_render tail"
  using assms
  by (auto simp: video_render_def video_handler_def try_except_def prim_defs render_op_def)

lemma eevee_switch_no_render [simp]: "no_render (eevee_switch H n)"
  by (simp add: eevee_switch_def render_op_def)

lemma studio_configure:
  "fst (video_configure denoiser_crash []) = Inr (video_output_dir denoiser_crash)"
  "length (snd (video_configure denoiser_crash [])) = 17"
  by (simp_all add: video_configure_def disable_layer_denoising_def
     prim_defs only_if_def render_op_def)

text \<open>
  C1, as the code has it. Let the settings part return and the first render raise \<open>e\<close>.
  If \<open>e\<close> is a \<^verbatim>\<open>RuntimeError\<close> whose message contains \<^verbatim>\<open>OpenImageDenoiser\<close>, the script
  prints a warning, writes the engine \<^verbatim>\<open>BLENDER_EEVEE\<close> and renders once more: the render
  operator is invoked exactly twice. Otherwise \<open>e\<close> leaves the script and the render
  operator was invoked exactly once. (What happens when the retry fails is C9.)
\<close>

theorem video_first_render_failure:
  assumes conf: "fst (video_configure H []) = Inr d"
    and fails: "raises H (length (snd (video_configure H []))) render_op = Some e"
  shows "if is_RuntimeError e \<and> str_contains denoiser (msg e)
         then (\<exists>tail. snd (video_main H []) =
                 snd (video_configure H []) @ render_op # eevee_switch H (Suc (length (snd (video_configure H []))))
                    @ render_op # tail \<and> no_render tail)
              \<and> count_renders (snd (video_main H [])) = 2
         else fst (video_main H []) = Inl e \<and> count_renders (snd (video_main H [])) = 1"
proof -
  define pre where "pre = snd (video_configure H [])"
  have nr: "no_render pre"
    unfolding pre_def by (rule video_configure_no_render)
  have main: "video_main H [] = video_render H d pre"
    unfolding pre_def using conf by (rule video_main_eq)
  from fails have f: "raises H (length pre) render_op = Some e"
    by (simp add: pre_def)
  show ?thesis
  proof (cases "is_RuntimeError e \<and> str_contains denoiser (msg e)")
    case True
    then have eq: "video_render H d pre = video_retry H d (pre @ render_op # eevee_switch H (Suc (length pre)))"
      using f by (simp add: video_render_caught)
    obtain tail where tail:
      "snd (video_retry H d (pre @ render_op # eevee_switch H (Suc (length pre)))) =
         (pre @ render_op # eevee_switch H (Suc (length pre))) @ render_op # tail" "no_render tail"
      using video_retry_trace by blast
    have "count_renders (snd (video_main H [])) = 2"
      using nr tail by (simp add: main eq no_render_count)
    then show ?thesis
      using True tail by (simp add: main eq pre_def [symmetric])
  next
    case False
    obtain tail where tail: "snd (video_render H d pre) = pre @ render_op # tail" "no_render tail"
      using video_render_propagated(2) [OF f False] by blast
    have "count_renders (snd (video_main H [])) = 1"
      using nr tail by (simp add: main no_render_count)
    then show ?thesis
      using False video_render_propagated(1) [OF f False] by (simp add: main)
  qed
qed

text \<open>
  C1, witness: on the host \<open>denoiser_crash\<close> the settings part returns, the first render
  raises the denoiser error, and the render operator is invoked twice.
\<close>

theorem video_first_render_failure_witness:
  "fst (video_configure denoiser_crash []) = Inr (video_output_dir denoiser_crash)
   \<and> raises denoiser_crash 17 render_op = Some (Exn RuntimeError ''OpenImageDenoiser error: failed to create device'')
   \<and> count_renders (snd (video_main denoiser_crash [])) = 2"
  using video_first_render_failure [of denoiser_crash "video_output_dir denoiser_crash"
      "Exn RuntimeError ''OpenImageDenoiser error: failed to create device''"]
  by (simp add: studio_configure is_RuntimeError_def denoiser_def startswith_def)

text \<open>
  C1 as stated fails: on \<open>denoiser_crash\<close> the second render (interaction 22) raises a
  \<^verbatim>\<open>RuntimeError\<close> whose message does not contain the denoiser substring, and the script
  returns normally instead of passing the failure on to the host.
\<close>

theorem video_retry_failure_not_propagated:
  "fst (video_main denoiser_crash []) = Inr ()
   \<and> snd (video_main denoiser_crash []) ! 22 = render_op
   \<and> raises denoiser_crash 22 render_op = Some (Exn RuntimeError ''Out of memory'')
   \<and> \<not> str_contains denoiser ''Out of memory''"
  by (simp add: video_defs
     prim_defs only_if_def try_except_def render_op_def denoiser_def startswith_def
     is_RuntimeError_def is_Exception_def)

text \<open>
  C9: when the retry with Eevee raises an exception \<open>e2\<close> (an instance of
  \<^verbatim>\<open>Exception\<close>, which is what \<^verbatim>\<open>except Exception\<close> catches), the script prints the
  failure and the advice, nothing else, and returns normally.
\<close>

theorem video_retry_failure_swallowed:
  assumes pre: "pre = snd (video_configure H [])"
    and conf: "fst (video_configure H []) = Inr d"
    and first: "raises H (length pre) render_op = Some e1"
    and caught: "is_RuntimeError e1" "str_contains denoiser (msg e1)"
    and second: "raises H (Suc (length pre) + length (eevee_switch H (Suc (length pre)))) render_op = Some e2"
    and exc: "is_Exception e2"
  shows "video_main H [] =
           (Inr (), pre @ render_op # eevee_switch H (Suc (length pre)) @
              [render_op,
               Print [VStr (newline @ cross_mark @ '' Render failed: ''), VStr (msg e2)],
               Print [VStr (''Try rendering manually in Blender UI with Film '' @ right_arrow @ '' Transparent enabled'')]])"
proof -
  have "video_main H [] = video_render H d pre"
    unfolding pre using conf by (rule video_main_eq)
  also have "\<dots> = video_retry H d (pre @ render_op # eevee_switch H (Suc (length pre)))"
    using first caught by (rule video_render_caught)
  finally show ?thesis
    using second exc by (simp add: video_retry_cases)
qed

text \<open>C9, witness: the host \<open>denoiser_crash\<close>, whose second render fails for lack of memory.\<close>

theorem video_retry_failure_swallowed_witness:
  "fst (video_configure denoiser_crash []) = Inr (video_output_dir denoiser_crash)
   \<and> raises denoiser_crash 17 render_op = Some (Exn RuntimeError ''OpenImageDenoiser error: failed to create device'')
   \<and> raises denoiser_crash 22 render_op = Some (Exn RuntimeError ''Out of memory'')
   \<and> is_Exception (Exn RuntimeError ''Out of memory'')
   \<and> fst (video_main denoiser_crash []) = Inr ()
   \<and> last (snd (video_main denoiser_crash [])) =
        Print [VStr (''Try rendering manually in Blender UI with Film '' @ right_arrow @ '' Transparent enabled'')]"
  using video_retry_failure_swallowed [of "snd (video_configure denoiser_crash [])" denoiser_crash
      "video_output_dir denoiser_crash"
      "Exn RuntimeError ''OpenImageDenoiser error: failed to create device''"
      "Exn RuntimeError ''Out of memory''"]
  by (simp add: studio_configure eevee_switch_def is_RuntimeError_def is_Exception_def
      denoiser_def startswith_def)

text \<open>
  What \<^verbatim>\<open>except Exception\<close> does not catch (\<^verbatim>\<open>KeyboardInterrupt\<close>, \<^verbatim>\<open>SystemExit\<close>) still
  leaves the script.
\<close>

lemma video_retry_base_exception_propagates:
  assumes pre: "pre = snd (video_configure H [])"
    and conf: "fst (video_configure H []) = Inr d"
    and first: "raises H (length pre) render_op = Some e1"
    and caught: "is_RuntimeError e1" "str_contains denoiser (msg e1)"
    and second: "raises H (Suc (length pre) + length (eevee_switch H (Suc (length pre)))) render_op = Some e2"
    and exc: "\<not> is_Exception e2"
  shows "fst (video_main H []) = Inl e2"
proof -
  have "video_main H [] = video_render H d pre"
    unfolding pre using conf by (rule video_main_eq)
  also have "\<dots> = video_retry H d (pre @ render_op # eevee_switch H (Suc (length pre)))"
    using first caught by (rule video_render_caught)
  finally show ?thesis
    using second exc by (simp add: video_retry_cases)
qed

subsection \<open>Every render happens with the alpha settings in place\<close>

lemma video_render_keeps_alpha: "emits keeps_alpha (video_render H d)"
  unfolding video_render_def video_handler_def video_retry_def video_success_prints_def
  by (intro emits_rules) (auto simp: keeps_alpha_def render_op_def)

lemma keeps_alpha_step: "keeps_alpha ev \<Longrightarrow> alpha_ready (apply_event st ev) = alpha_ready st"
  by (cases ev) (auto simp: keeps_alpha_def alpha_ready_def)

lemma keeps_alpha_renders_ok:
  "alpha_ready st \<Longrightarrow> list_all keeps_alpha ext \<Longrightarrow> renders_ok st ext"
  by (induction ext arbitrary: st) (simp_all add: keeps_alpha_step)

lemma renders_ok_nth:
  "renders_ok st tr \<Longrightarrow> i < length tr \<Longrightarrow> tr ! i = render_op
     \<Longrightarrow> alpha_ready (foldl apply_event st (take i tr))"
proof (induction tr arbitrary: st i)
  case Nil
  then show ?case by simp
next
  case (Cons ev tr)
  show ?case
  proof (cases i)
    case 0
    with Cons.prems show ?thesis by simp
  next
    case (Suc j)
    with Cons.prems have "renders_ok (apply_event st ev) tr" "j < length tr" "tr ! j = render_op"
      by simp_all
    then have "alpha_ready (foldl apply_event (apply_event st ev) (take j tr))"
      by (rule Cons.IH)
    with Suc show ?thesis by simp
  qed
qed

lemma video_main_renders_ok: "renders_ok Map.empty (snd (video_main H []))"
proof (cases "fst (video_configure H [])")
  case (Inl e)
  then show ?thesis
    by (simp add: video_main_eq_fail no_render_ok video_configure_no_render)
next
  case (Inr d)
  obtain ext where ext: "snd (video_render H d (snd (video_configure H []))) = snd (video_configure H []) @ ext"
    "list_all keeps_alpha ext"
    using emitsD [OF video_render_keeps_alpha] by blast
  have "renders_ok (written (snd (video_configure H []))) ext"
    using video_configure_result(3) [OF Inr] ext(2) by (rule keeps_alpha_renders_ok)
  then show ?thesis
    using Inr ext(1) by (simp add: video_main_eq no_render_ok video_configure_no_render written_def)
qed

lemma studio_video_trace:
  "length (snd (video_main studio [])) = 26" "snd (video_main studio []) ! 17 = render_op"
  by (simp_all add: video_defs prim_defs only_if_def try_except_def render_op_def)

text \<open>
  C4: whenever the render operator is invoked (the interaction at any position \<open>i\<close> of the
  trace), the attribute writes made before it have left \<^verbatim>\<open>film_transparent\<close> at
  \<^verbatim>\<open>True\<close>, the file format at \<^verbatim>\<open>PNG\<close> and the color mode at \<^verbatim>\<open>RGBA\<close>.
\<close>

theorem render_only_after_alpha_settings:
  assumes "i < length (snd (video_main H []))" and "snd (video_main H []) ! i = render_op"
  shows "alpha_ready (written (take i (snd (video_main H []))))"
  unfolding written_def using video_main_renders_ok assms by (rule renders_ok_nth)

text \<open>C4, witness: on the host \<open>studio\<close> the render is interaction 17.\<close>

theorem render_only_after_alpha_settings_witness:
  "17 < length (snd (video_main studio [])) \<and> snd (video_main studio []) ! 17 = render_op
   \<and> alpha_ready (written (take 17 (snd (video_main studio []))))"
  using render_only_after_alpha_settings [of 17 studio]
  by (simp add: studio_video_trace)

section \<open>Rules for success and failure\<close>

lemma succeedsD: "succeeds m \<Longrightarrow> \<exists>x tr'. m tr = (Inr x, tr')"
  by (simp add: succeeds_def)

lemma succeeds_ret: "succeeds (ret x)"
  by (simp add: succeeds_def ret_def)

lemma succeeds_ask: "succeeds (ask q)"
  by (simp add: succeeds_def ask_def)

lemma succeeds_emit: "succeeds (emit ev)"
  by (simp add: succeeds_def emit_def)

lemma succeeds_say: "succeeds (say p)"
  by (simp add: succeeds_def say_def)

lemma succeeds_invoke: "quiet H \<Longrightarrow> succeeds (invoke H ev)"
  by (simp add: succeeds_def invoke_def quiet_def)

lemma succeeds_invoke_ref: "quiet H \<Longrightarrow> succeeds (invoke_ref H ev)"
  by (simp add: succeeds_def invoke_ref_def quiet_def)

lemma succeeds_bind:
  assumes m: "succeeds m" and f: "\<And>x. succeeds (f x)"
  shows "succeeds (bind m f)"
  unfolding succeeds_def
proof
  fix tr
  obtain x tr' where "m tr = (Inr x, tr')"
    using succeedsD [OF m] by blast
  then have "bind m f tr = f x tr'"
    by (simp add: bind_def)
  then show "\<exists>y tr''. bind m f tr = (Inr y, tr'')"
    using succeedsD [OF f] by simp
qed

lemma succeeds_only_if: "(b \<Longrightarrow> succeeds m) \<Longrightarrow> succeeds (only_if b m)"
  by (simp add: only_if_def succeeds_ret)

lemma succeeds_if: "(b \<Longrightarrow> succeeds m) \<Longrightarrow> (\<not> b \<Longrightarrow> succeeds m') \<Longrightarrow> succeeds (if b then m else m')"
  by simp

lemma succeeds_for_each: "(\<And>x. x \<in> set xs \<Longrightarrow> succeeds (body x)) \<Longrightarrow> succeeds (for_each xs body)"
  by (induction xs) (simp_all add: succeeds_ret succeeds_bind)

lemmas succeeds_rules = succeeds_ret succeeds_ask succeeds_emit succeeds_say succeeds_invoke
  succeeds_invoke_ref succeeds_bind succeeds_only_if succeeds_if succeeds_for_each

section \<open>Properties of blender_export_existing_scene.py\<close>

lemma scene_main_events: "emits (scene_event H) (scene_main H)"
  unfolding scene_main_def print_camera_def print_light_def
  by (intro emits_rules) (simp_all add: scene_event_def is_print_def scene_makedirs_def scene_getsize_def)

lemma scene_main_succeeds: "quiet H \<Longrightarrow> succeeds (scene_main H)"
  unfolding scene_main_def print_camera_def print_light_def
  by (intro succeeds_rules) simp_all

lemma scene_event_frame: "list_all (scene_event H) tr \<Longrightarrow> foldl apply_event st tr = st"
  by (induction tr arbitrary: st)
    (auto simp: scene_event_def is_print_def scene_makedirs_def scene_getsize_def scene_export_op_def
      split: event.splits)

lemma wp_by_emits:
  assumes "emits P m" and "succeeds m"
    and "\<And>x ext. list_all P ext \<Longrightarrow> Q x (tr @ ext)"
  shows "wp m Q E tr"
proof -
  obtain ext where ext: "snd (m tr) = tr @ ext" "list_all P ext"
    using emitsD [OF assms(1)] by blast
  obtain x tr' where "m tr = (Inr x, tr')"
    using succeedsD [OF assms(2)] by blast
  with ext show ?thesis
    using assms(3) by (simp add: wp_def)
qed

lemma wp_print_cameras:
  "(\<And>ext. list_all is_print ext \<Longrightarrow> Q () (tr @ ext)) \<Longrightarrow> wp (for_each cams (print_camera H)) Q E tr"
  by (rule wp_by_emits [where P = is_print])
    (auto intro!: emits_rules succeeds_rules simp: print_camera_def is_print_def)

lemma wp_print_lights:
  "(\<And>ext. list_all is_print ext \<Longrightarrow> Q () (tr @ ext)) \<Longrightarrow> wp (for_each ls (print_light H)) Q E tr"
  by (rule wp_by_emits [where P = is_print])
    (auto intro!: emits_rules succeeds_rules simp: print_light_def is_print_def)

lemma is_print_simps [simp]:
  "is_print (Print p)" "\<not> is_print (Op n k)" "\<not> is_print (Meth r n a k)"
  "\<not> is_print (Os n a k)" "\<not> is_print (SetAttr r v)"
  by (simp_all add: is_print_def)

lemma filter_prints: "list_all is_print ext \<Longrightarrow> filter (\<lambda>ev. \<not> is_print ev) ext = []"
  by (induction ext) auto

lemma dropWhile_prints:
  "list_all is_print ext \<Longrightarrow> \<not> is_print x
     \<Longrightarrow> dropWhile (\<lambda>ev. ev \<noteq> x) (ext @ rest) = dropWhile (\<lambda>ev. ev \<noteq> x) rest"
  by (induction ext) auto

lemma scene_main_quiet:
  assumes "quiet H"
  shows "wp (scene_main H)
     (\<lambda>_ tr. filter (\<lambda>ev. \<not> is_print ev) tr = [scene_makedirs H, scene_export_op H, scene_getsize H]
        \<and> dropWhile (\<lambda>ev. ev \<noteq> scene_export_op H) tr =
            [scene_export_op H,
             Print [VStr (newline @ check_mark @ '' Successfully exported GLB: ''), VStr (scene_out_path H)],
             scene_getsize H,
             Print [VStr ''  File size: '',
                    VFloat (real (getsize H (length tr - 1) (scene_out_path H)) / 1024), VStr '' KB'']])
     (\<lambda>_ _. False) []"
proof -
  have q: "\<And>n ev. raises H n ev = None"
    using assms by (simp add: quiet_def)
  have np: "\<not> is_print (scene_export_op H)" "\<not> is_print (scene_makedirs H)" "\<not> is_print (scene_getsize H)"
    by (simp_all add: is_print_def scene_export_op_def scene_makedirs_def scene_getsize_def)
  have ne: "scene_makedirs H \<noteq> scene_export_op H" "scene_getsize H \<noteq> scene_export_op H"
    "\<And>p. Print p \<noteq> scene_export_op H"
    by (simp_all add: scene_export_op_def scene_makedirs_def scene_getsize_def)
  show ?thesis
    unfolding scene_main_def scene_makedirs_def [symmetric] scene_getsize_def [symmetric]
    apply (simp add: q)
    apply (rule wp_print_cameras)
    apply (simp add: q)
    apply (rule wp_print_lights)
    apply (simp add: q np ne filter_prints dropWhile_prints)
    done
qed

text \<open>
  C7: every interaction of the scene-export script is a print, the creation of the output
  directory, the export operator call or the size query: it writes no attribute and calls
  no method of a scene object, so the attribute store after the script is the store before
  it. On a host that does not raise, the script returns, the calls it makes are, in order,
  \<^verbatim>\<open>makedirs\<close>, the export operator and \<^verbatim>\<open>getsize\<close>, everything before the export is a
  print of what it read, and the export is followed by the success message, the size query
  and the print of the size.
\<close>

theorem scene_export_only_reads:
  "list_all (scene_event H) (snd (scene_main H []))
   \<and> (\<forall>st. foldl apply_event st (snd (scene_main H [])) = st)
   \<and> (quiet H \<longrightarrow>
        fst (scene_main H []) = Inr ()
        \<and> filter (\<lambda>ev. \<not> is_print ev) (snd (scene_main H []))
            = [scene_makedirs H, scene_export_op H, scene_getsize H]
        \<and> dropWhile (\<lambda>ev. ev \<noteq> scene_export_op H) (snd (scene_main H [])) =
            [scene_export_op H,
             Print [VStr (newline @ check_mark @ '' Successfully exported GLB: ''), VStr (scene_out_path H)],
             scene_getsize H,
             Print [VStr ''  File size: '',
                    VFloat (real (getsize H (length (snd (scene_main H [])) - 1) (scene_out_path H)) / 1024),
                    VStr '' KB'']])"
proof -
  have events: "list_all (scene_event H) (snd (scene_main H []))"
    using emitsD [OF scene_main_events, of H "[]"] by simp
  then have frame: "\<forall>st. foldl apply_event st (snd (scene_main H [])) = st"
    by (simp add: scene_event_frame)
  have "quiet H \<longrightarrow>
        fst (scene_main H []) = Inr ()
        \<and> filter (\<lambda>ev. \<not> is_print ev) (snd (scene_main H []))
            = [scene_makedirs H, scene_export_op H, scene_getsize H]
        \<and> dropWhile (\<lambda>ev. ev \<noteq> scene_export_op H) (snd (scene_main H [])) =
            [scene_export_op H,
             Print [VStr (newline @ check_mark @ '' Successfully exported GLB: ''), VStr (scene_out_path H)],
             scene_getsize H,
             Print [VStr ''  File size: '',
                    VFloat (real (getsize H (length (snd (scene_main H [])) - 1) (scene_out_path H)) / 1024),
                    VStr '' KB'']]"
  proof
    assume q: "quiet H"
    obtain x tr where run: "scene_main H [] = (Inr x, tr)"
      using succeedsD [OF scene_main_succeeds [OF q]] by blast
    with scene_main_quiet [OF q] show "fst (scene_main H []) = Inr ()
        \<and> filter (\<lambda>ev. \<not> is_print ev) (snd (scene_main H []))
            = [scene_makedirs H, scene_export_op H, scene_getsize H]
        \<and> dropWhile (\<lambda>ev. ev \<noteq> scene_export_op H) (snd (scene_main H [])) =
            [scene_export_op H,
             Print [VStr (newline @ check_mark @ '' Successfully exported GLB: ''), VStr (scene_out_path H)],
             scene_getsize H,
             Print [VStr ''  File size: '',
                    VFloat (real (getsize H (length (snd (scene_main H [])) - 1) (scene_out_path H)) / 1024),
                    VStr '' KB'']]"
      by (simp add: wp_def)
  qed
  with events frame show ?thesis by blast
qed

lemma quiet_studio [simp]: "quiet studio"
  by (simp add: quiet_def)

text \<open>
  C7, witness: the host \<open>studio\<close>.
\<close>

theorem scene_export_only_reads_witness:
  "quiet studio \<and> fst (scene_main studio []) = Inr ()
   \<and> filter (\<lambda>ev. \<not> is_print ev) (snd (scene_main studio []))
       = [scene_makedirs studio, scene_export_op studio, scene_getsize studio]"
  using scene_export_only_reads [of studio] by simp

lemma endswith_slash: "endswith s ''/'' \<longleftrightarrow> s \<noteq> [] \<and> last s = CHR ''/''"
proof (cases s rule: rev_cases)
  case Nil
  then show ?thesis by (simp add: endswith_def)
next
  case (snoc xs x)
  then show ?thesis by (auto simp: endswith_def)
qed

lemma join_models:
  "path_join base [''public'', ''models'', name] =
     (if startswith name ''/'' then name else under_root base (''public/models/'' @ name))"
  by (simp add: path_join_def join2_def under_root_def endswith_slash startswith_def)

lemma scene_out_path_fixed:
  "scene_out_path H = under_root (project_root H) ''public/models/jaleneduseiwhite.glb''"
  by (simp add: scene_out_path_def project_root_def join_models startswith_def)

lemma glass_out_path_fixed:
  "glass_out_path H = under_root (project_root H) ''public/models/jalen_edusei_glass.glb''"
  by (simp add: glass_out_path_def project_root_def join_models startswith_def)

lemma video_output_dir_fixed:
  "video_output_dir H = under_root (project_root H) ''public/videos''"
  by (simp add: video_output_dir_def project_root_def path_join_def join2_def under_root_def
      endswith_slash startswith_def)

lemma png_output_fixed:
  "png_output H = under_root (project_root H) ''public/videos/jalenedusei_animation_####.png''"
  by (simp add: png_output_def video_output_dir_fixed path_join_def join2_def under_root_def
      endswith_slash startswith_def)

lemmas glass_defs = glass_script_def glass_main_def glass_finish_def glass_export_def create_text_logo_def
  create_from_svg_def setup_scene_def add_camera_and_lights_def add_glass_material_def
  uv_unwrap_def setup_world_def add_rotation_animation_def smooth_fcurve_def smooth_keyframe_def
  bevel_spline_def

lemmas op_defs = convert_op_def svg_import_op_def smart_project_op_def keyframe_insert_def
  glass_export_op_def scene_export_op_def render_op_def read_factory_settings_def text_add_op_def

section \<open>Output paths\<close>

lemma exports_to_simps [simp]:
  "exports_to p (Print parts)" "exports_to p (SetAttr r v)" "exports_to p (Meth r n a k)"
  "exports_to p (Os n a k)"
  "exports_to p (Op n kw) \<longleftrightarrow> (n = ''export_scene.gltf'' \<longrightarrow> map_of kw ''filepath'' = Some (VStr p))"
  by (simp_all add: exports_to_def)

lemma renders_to_simps [simp]:
  "renders_to p (Print parts)" "renders_to p (Op n kw)" "renders_to p (Meth r n a k)"
  "renders_to p (Os n a k)"
  "renders_to p (SetAttr r v) \<longleftrightarrow> (r = Field render_settings ''filepath'' \<longrightarrow> v = VStr p)"
  by (simp_all add: renders_to_def)

lemma scene_main_exports: "emits (exports_to (scene_out_path H)) (scene_main H)"
  unfolding scene_main_def print_camera_def print_light_def
  by (intro emits_rules) (simp_all add: scene_export_op_def)

lemma glass_script_exports: "emits (exports_to (glass_out_path H)) (glass_script H)"
  unfolding glass_defs
  by (intro emits_rules) (simp_all add: op_defs)

lemma video_main_renders_to: "emits (renders_to (png_output H)) (video_main H)"
  unfolding video_defs
  by (intro emits_rules) (auto simp: op_defs)

lemma wp_bind_succeeds:
  assumes "succeeds m" and "\<And>x tr'. wp (f x) Q E tr'"
  shows "wp (bind m f) Q E tr"
proof -
  obtain x tr' where "m tr = (Inr x, tr')"
    using succeedsD [OF assms(1)] by blast
  then show ?thesis
    using assms(2) [of x tr'] by (simp add: wp_def bind_def)
qed

lemma quietD [simp]: "quiet H \<Longrightarrow> raises H n ev = None"
  by (simp add: quiet_def)

lemma create_text_logo_succeeds: "quiet H \<Longrightarrow> succeeds (create_text_logo H)"
  unfolding create_text_logo_def by (intro succeeds_rules) simp_all

lemma setup_scene_succeeds: "quiet H \<Longrightarrow> succeeds (setup_scene H logo dark)"
  unfolding setup_scene_def add_camera_and_lights_def add_glass_material_def uv_unwrap_def
    setup_world_def
  by (intro succeeds_rules) simp_all

lemma add_rotation_animation_succeeds: "quiet H \<Longrightarrow> succeeds (add_rotation_animation H logo n)"
  unfolding add_rotation_animation_def smooth_fcurve_def smooth_keyframe_def
  by (intro succeeds_rules) simp_all

lemma glass_export_succeeds: "quiet H \<Longrightarrow> succeeds (glass_export H)"
  unfolding glass_export_def by (intro succeeds_rules) simp_all

lemma glass_script_succeeds: "quiet H \<Longrightarrow> \<not> use_svg H \<Longrightarrow> succeeds (glass_script H)"
  unfolding glass_script_def glass_main_def glass_finish_def
  by (intro succeeds_rules create_text_logo_succeeds setup_scene_succeeds
      add_rotation_animation_succeeds glass_export_succeeds) simp_all

lemma glass_export_reached:
  assumes "quiet H"
  shows "wp (glass_export H) (\<lambda>_ tr. glass_export_op H \<in> set tr) E tr"
  using assms by (simp add: glass_export_def)

lemma glass_script_reaches_export:
  assumes q: "quiet H" and nosvg: "\<not> use_svg H"
  shows "glass_export_op H \<in> set (snd (glass_script H []))"
proof -
  have "wp (glass_script H) (\<lambda>_ tr. glass_export_op H \<in> set tr) (\<lambda>_ _. False) []"
    unfolding glass_script_def glass_main_def glass_finish_def
    by (simp only: nosvg if_False)
      (intro wp_bind_succeeds succeeds_invoke succeeds_emit create_text_logo_succeeds
        setup_scene_succeeds add_rotation_animation_succeeds glass_export_reached q)
  then show ?thesis
    by (simp add: wp_def split: prod.splits sum.splits)
qed

lemma video_main_sets_output:
  assumes q: "quiet H"
  shows "SetAttr (Field render_settings ''filepath'') (VStr (png_output H)) \<in> set (snd (video_main H []))"
proof -
  have "wp (video_main H)
          (\<lambda>_ tr. SetAttr (Field render_settings ''filepath'') (VStr (png_output H)) \<in> set tr)
          (\<lambda>_ _. False) []"
    unfolding video_main_def video_configure_def video_render_def video_success_prints_def using q
    by (auto intro!: wp_layer_loop)
  then show ?thesis
    by (simp add: wp_def split: prod.splits sum.splits)
qed

section \<open>Properties of blender_jalen_edusei_glass.py: the argument\<close>

lemma fails_onlyD: "fails_only R m \<Longrightarrow> m tr = (Inl e, tr') \<Longrightarrow> R e"
  by (auto simp: fails_only_def)

lemma fails_ret: "fails_only R (ret x)"
  by (simp add: fails_only_def ret_def)

lemma fails_ask: "fails_only R (ask q)"
  by (simp add: fails_only_def ask_def)

lemma fails_emit: "fails_only R (emit ev)"
  by (simp add: fails_only_def emit_def)

lemma fails_say: "fails_only R (say p)"
  by (simp add: fails_only_def say_def)

lemma fails_throw: "R e \<Longrightarrow> fails_only R (throw e)"
  by (simp add: fails_only_def throw_def)

lemma fails_invoke: "(\<And>n e. raises H n ev = Some e \<Longrightarrow> R e) \<Longrightarrow> fails_only R (invoke H ev)"
  by (auto simp: fails_only_def invoke_def split: option.splits)

lemma fails_invoke_ref: "(\<And>n e. raises H n ev = Some e \<Longrightarrow> R e) \<Longrightarrow> fails_only R (invoke_ref H ev)"
  by (auto simp: fails_only_def invoke_ref_def split: option.splits)

lemma fails_bind:
  assumes "fails_only R m" and "\<And>x. fails_only R (f x)"
  shows "fails_only R (bind m f)"
  unfolding fails_only_def
proof (intro allI impI)
  fix tr e tr'
  assume run: "bind m f tr = (Inl e, tr')"
  show "R e"
  proof (cases "m tr")
    case (Pair r t)
    show ?thesis
    proof (cases r)
      case (Inl e')
      with Pair run have "e' = e" by (simp add: bind_def)
      with Pair Inl show ?thesis using fails_onlyD [OF assms(1)] by blast
    next
      case (Inr x)
      with Pair run have "f x t = (Inl e, tr')" by (simp add: bind_def)
      then show ?thesis by (rule fails_onlyD [OF assms(2)])
    qed
  qed
qed

lemma fails_only_if: "(b \<Longrightarrow> fails_only R m) \<Longrightarrow> fails_only R (only_if b m)"
  by (simp add: only_if_def fails_ret)

lemma fails_if:
  "(b \<Longrightarrow> fails_only R m) \<Longrightarrow> (\<not> b \<Longrightarrow> fails_only R m') \<Longrightarrow> fails_only R (if b then m else m')"
  by simp

lemma fails_for_each: "(\<And>x. x \<in> set xs \<Longrightarrow> fails_only R (body x)) \<Longrightarrow> fails_only R (for_each xs body)"
  by (induction xs) (simp_all add: fails_ret fails_bind)

lemmas fails_rules = fails_ret fails_ask fails_emit fails_say fails_throw fails_invoke
  fails_invoke_ref fails_bind fails_only_if fails_if fails_for_each

lemma is_svg_import_simps [simp]:
  "\<not> is_svg_import (Print p)" "\<not> is_svg_import (SetAttr r v)" "\<not> is_svg_import (Meth r n a k)"
  "\<not> is_svg_import (Os n a k)" "is_svg_import (Op n kw) \<longleftrightarrow> n = ''import_curve.svg''"
  by (simp_all add: is_svg_import_def)

lemma glass_script_failures:
  "fails_only (\<lambda>e. host_raised H e \<or> (use_svg H \<and> e = no_curves_error H)) (glass_script H)"
  unfolding glass_defs
  by (intro fails_rules) (auto simp: host_raised_def no_curves_error_def)

lemma glass_script_imports:
  "emits (\<lambda>ev. is_svg_import ev \<longrightarrow> use_svg H \<and> ev = svg_import_op (hd (script_args H))) (glass_script H)"
  unfolding glass_defs
  by (intro emits_rules) (simp_all add: op_defs)

lemma scene_main_no_import: "emits (\<lambda>ev. \<not> is_svg_import ev) (scene_main H)"
  unfolding scene_main_def print_camera_def print_light_def
  by (intro emits_rules) (simp_all add: op_defs)

lemma video_main_no_import: "emits (\<lambda>ev. \<not> is_svg_import ev) (video_main H)"
  unfolding video_defs
  by (intro emits_rules) (auto simp: op_defs)

lemma emits_run: "emits P m \<Longrightarrow> list_all P (snd (m []))"
  using emitsD [of P m "[]"] by simp

lemma glass_script_no_import:
  assumes "\<not> use_svg H"
  shows "list_all (\<lambda>ev. \<not> is_svg_import ev) (snd (glass_script H []))"
proof -
  have "list_all (\<lambda>ev. is_svg_import ev \<longrightarrow> use_svg H \<and> ev = svg_import_op (hd (script_args H)))
          (snd (glass_script H []))"
    by (rule emits_run [OF glass_script_imports])
  then show ?thesis
    using assms by (simp add: list_all_iff)
qed

lemma missing_svg_simps [simp]:
  "script_args missing_svg = [''art/missing.svg'']" "\<not> isfile missing_svg p"
  "\<not> use_svg missing_svg" "quiet missing_svg"
  by (simp_all add: missing_svg_def script_args_def use_svg_def quiet_def)

lemma png_arg_simps [simp]:
  "script_args png_arg = [''art/logo.png'']" "isfile png_arg p"
  "\<not> use_svg png_arg" "quiet png_arg"
  by (simp_all add: png_arg_def script_args_def use_svg_def quiet_def endswith_def)

lemma svg_arg_simps [simp]:
  "script_args svg_arg = [''art/logo.svg'']" "isfile svg_arg p \<longleftrightarrow> p = ''art/logo.svg''"
  "use_svg svg_arg" "quiet svg_arg" "raises svg_arg = (\<lambda>n ev. None)"
  "get_refs svg_arg = get_refs studio" "get_str svg_arg = get_str studio"
  by (simp_all add: svg_arg_def script_args_def use_svg_def quiet_def endswith_def)

lemma svg_arg_run:
  "glass_script svg_arg [] =
     (Inl (Exn FileNotFoundError ''No curves in SVG: art/logo.svg''),
      [read_factory_settings, svg_import_op ''art/logo.svg''])"
  by (simp add: glass_script_def glass_main_def create_from_svg_def prim_defs)

text \<open>
  C2, as the code has it. An exception that leaves the logo script was raised by a host call,
  or it is the \<^verbatim>\<open>FileNotFoundError\<close> that \<^verbatim>\<open>create_from_svg\<close> raises when the import of an
  existing \<^verbatim>\<open>.svg\<close> file leaves no curve selected. When the argument names a file that does
  not exist, the SVG branch is not taken: no import is attempted, and on a host that does not
  raise the script returns normally.
\<close>

theorem missing_svg_is_not_fatal:
  "(fst (glass_script H []) = Inl e \<longrightarrow>
      host_raised H e \<or> (use_svg H \<and> e = no_curves_error H))
   \<and> (script_args H = a # rest \<and> \<not> isfile H a \<longrightarrow>
        \<not> use_svg H
        \<and> list_all (\<lambda>ev. \<not> is_svg_import ev) (snd (glass_script H []))
        \<and> (quiet H \<longrightarrow> fst (glass_script H []) = Inr ()))"
proof (intro conjI impI)
  assume "fst (glass_script H []) = Inl e"
  then have "glass_script H [] = (Inl e, snd (glass_script H []))"
    by (cases "glass_script H []") simp
  then show "host_raised H e \<or> (use_svg H \<and> e = no_curves_error H)"
    by (rule fails_onlyD [OF glass_script_failures])
next
  assume a: "script_args H = a # rest \<and> \<not> isfile H a"
  then show no: "\<not> use_svg H"
    by (simp add: use_svg_def)
  then show "list_all (\<lambda>ev. \<not> is_svg_import ev) (snd (glass_script H []))"
    by (rule glass_script_no_import)
  assume "quiet H"
  then obtain x tr where "glass_script H [] = (Inr x, tr)"
    using succeedsD [OF glass_script_succeeds [OF _ no]] by blast
  then show "fst (glass_script H []) = Inr ()"
    by simp
qed

text \<open>
  C2, witness: an existing SVG without curves aborts the script; a missing file does not.
\<close>

theorem missing_svg_is_not_fatal_witness:
  "fst (glass_script svg_arg []) = Inl (Exn FileNotFoundError ''No curves in SVG: art/logo.svg'')
   \<and> use_svg svg_arg
   \<and> script_args missing_svg = [''art/missing.svg''] \<and> \<not> isfile missing_svg ''art/missing.svg''
   \<and> quiet missing_svg \<and> fst (glass_script missing_svg []) = Inr ()"
  using missing_svg_is_not_fatal [of svg_arg "Exn FileNotFoundError ''No curves in SVG: art/logo.svg''"]
    missing_svg_is_not_fatal [of missing_svg _ "''art/missing.svg''" "[]"]
  by (simp add: svg_arg_run)

text \<open>
  C2 as stated fails: with an argument that names a missing SVG file the script returns
  normally.
\<close>

theorem missing_svg_builds_text_logo:
  "script_args missing_svg = [''art/missing.svg''] \<and> \<not> isfile missing_svg ''art/missing.svg''
   \<and> fst (glass_script missing_svg []) = Inr ()"
proof -
  obtain x tr where "glass_script missing_svg [] = (Inr x, tr)"
    using succeedsD [OF glass_script_succeeds [of missing_svg]] by auto
  then show ?thesis by simp
qed

lemma run_split:
  assumes "emits P m" and "succeeds m"
  shows "\<exists>x ext. m tr = (Inr x, tr @ ext) \<and> list_all P ext"
proof -
  obtain ext where ext: "snd (m tr) = tr @ ext" "list_all P ext"
    using emitsD [OF assms(1)] by blast
  obtain x tr' where "m tr = (Inr x, tr')"
    using succeedsD [OF assms(2)] by blast
  with ext show ?thesis by auto
qed

lemma appends_only: "emits P m \<Longrightarrow> \<exists>ext. snd (m tr) = tr @ ext"
  using emitsD [of P m tr] by blast

lemma create_text_logo_start:
  assumes "raises H (length tr) text_add_op = None"
  shows "\<exists>ext. snd (create_text_logo H tr) =
           tr @ [text_add_op,
                 SetAttr (Field (get_ref H (Suc (length tr)) active_object) ''name'') (VStr ''JalenEdusei_Text''),
                 SetAttr (Field (Field (get_ref H (Suc (length tr)) active_object) ''data'') ''body'')
                   (VStr (''JALEN'' @ newline @ ''EDUSEI''))] @ ext"
  using assms
  by (simp add: create_text_logo_def prim_defs only_if_def split: option.splits)

lemma create_text_logo_no_print: "emits (\<lambda>ev. \<not> is_print ev) (create_text_logo H)"
  unfolding create_text_logo_def
  by (intro emits_rules) (simp_all add: op_defs)

lemma glass_build_no_print:
  "emits (\<lambda>ev. \<not> is_print ev) (setup_scene H logo dark)"
  "emits (\<lambda>ev. \<not> is_print ev) (add_rotation_animation H logo n)"
  unfolding glass_defs
  by (intro emits_rules; simp add: op_defs)+

lemma glass_finish_appends: "emits (\<lambda>ev. True) (glass_finish H logo)"
  unfolding glass_defs
  by (intro emits_rules) simp_all

lemma filter_no_prints: "list_all (\<lambda>ev. \<not> is_print ev) ext \<Longrightarrow> filter is_print ext = []"
  by (induction ext) auto

lemma glass_finish_prints:
  assumes q: "quiet H"
  shows "filter is_print (snd (glass_finish H logo tr)) = filter is_print tr @ glass_final_prints H"
proof -
  obtain x1 e1 where s1: "setup_scene H logo True (tr @ [Op ''object.origin_set''
             [(''type'', VStr ''ORIGIN_GEOMETRY''), (''center'', VStr ''BOUNDS'')],
             SetAttr (Field logo ''location'') (VTup [VInt 0, VInt 0, VInt 0])])
      = (Inr x1, (tr @ [Op ''object.origin_set''
             [(''type'', VStr ''ORIGIN_GEOMETRY''), (''center'', VStr ''BOUNDS'')],
             SetAttr (Field logo ''location'') (VTup [VInt 0, VInt 0, VInt 0])]) @ e1)"
    "list_all (\<lambda>ev. \<not> is_print ev) e1"
    using run_split [OF glass_build_no_print(1) setup_scene_succeeds [OF q]] by blast
  obtain x2 e2 where s2: "add_rotation_animation H logo 120 ((tr @ [Op ''object.origin_set''
             [(''type'', VStr ''ORIGIN_GEOMETRY''), (''center'', VStr ''BOUNDS'')],
             SetAttr (Field logo ''location'') (VTup [VInt 0, VInt 0, VInt 0])]) @ e1)
      = (Inr x2, ((tr @ [Op ''object.origin_set''
             [(''type'', VStr ''ORIGIN_GEOMETRY''), (''center'', VStr ''BOUNDS'')],
             SetAttr (Field logo ''location'') (VTup [VInt 0, VInt 0, VInt 0])]) @ e1) @ e2)"
    "list_all (\<lambda>ev. \<not> is_print ev) e2"
    using run_split [OF glass_build_no_print(2) add_rotation_animation_succeeds [OF q]] by blast
  show ?thesis
    using q s1 s2
    by (simp add: glass_finish_def glass_export_def glass_final_prints_def bind_def prim_defs
        filter_no_prints glass_export_op_def)
qed

lemma glass_script_text_quiet:
  assumes q: "quiet H" and nosvg: "\<not> use_svg H"
  shows "take 4 (snd (glass_script H [])) =
           [read_factory_settings, text_add_op,
            SetAttr (Field (get_ref H 2 active_object) ''name'') (VStr ''JalenEdusei_Text''),
            SetAttr (Field (Field (get_ref H 2 active_object) ''data'') ''body'')
              (VStr (''JALEN'' @ newline @ ''EDUSEI''))]"
    and "filter is_print (snd (glass_script H [])) = glass_final_prints H"
proof -
  obtain ext where start: "snd (create_text_logo H [read_factory_settings]) =
     [read_factory_settings] @
     [text_add_op,
      SetAttr (Field (get_ref H 2 active_object) ''name'') (VStr ''JalenEdusei_Text''),
      SetAttr (Field (Field (get_ref H 2 active_object) ''data'') ''body'')
        (VStr (''JALEN'' @ newline @ ''EDUSEI''))] @ ext"
    using create_text_logo_start [of H "[read_factory_settings]"] q by (auto simp: numeral_2_eq_2)
  obtain logo ext' where made: "create_text_logo H [read_factory_settings] =
       (Inr logo, [read_factory_settings] @ ext')" "list_all (\<lambda>ev. \<not> is_print ev) ext'"
    using run_split [OF create_text_logo_no_print create_text_logo_succeeds [OF q]] by blast
  have script: "glass_script H [] = glass_finish H logo ([read_factory_settings] @ ext')"
    using q nosvg made(1) by (simp add: glass_script_def glass_main_def bind_def invoke_def)
  obtain more where more: "snd (glass_finish H logo ([read_factory_settings] @ ext')) =
       ([read_factory_settings] @ ext') @ more"
    using appends_only [OF glass_finish_appends] by blast
  from start made(1) have "ext' = [text_add_op,
      SetAttr (Field (get_ref H 2 active_object) ''name'') (VStr ''JalenEdusei_Text''),
      SetAttr (Field (Field (get_ref H 2 active_object) ''data'') ''body'')
        (VStr (''JALEN'' @ newline @ ''EDUSEI''))] @ ext"
    by simp
  with more show "take 4 (snd (glass_script H [])) =
           [read_factory_settings, text_add_op,
            SetAttr (Field (get_ref H 2 active_object) ''name'') (VStr ''JalenEdusei_Text''),
            SetAttr (Field (Field (get_ref H 2 active_object) ''data'') ''body'')
              (VStr (''JALEN'' @ newline @ ''EDUSEI''))]"
    by (simp add: script)
  show "filter is_print (snd (glass_script H [])) = glass_final_prints H"
    using made(2) by (simp add: script glass_finish_prints [OF q] filter_no_prints
        read_factory_settings_def)
qed

text \<open>
  C8: when the first argument after \<^verbatim>\<open>--\<close> does not end with \<^verbatim>\<open>.svg\<close> or names no file, the
  script imports nothing and raises nothing of its own; on a host that does not raise it
  returns normally, its first interactions create the text object and set its body to
  \<^verbatim>\<open>JALEN\<close>, newline, \<^verbatim>\<open>EDUSEI\<close>, and all it prints are the two closing messages.
\<close>

theorem non_svg_argument_falls_back_to_text:
  assumes "script_args H = a # rest" and "\<not> (endswith a ''.svg'' \<and> isfile H a)"
  shows "list_all (\<lambda>ev. \<not> is_svg_import ev) (snd (glass_script H []))
     \<and> (fst (glass_script H []) = Inl e \<longrightarrow> host_raised H e)
     \<and> (quiet H \<longrightarrow>
          fst (glass_script H []) = Inr ()
          \<and> take 4 (snd (glass_script H [])) =
               [read_factory_settings, text_add_op,
                SetAttr (Field (get_ref H 2 active_object) ''name'') (VStr ''JalenEdusei_Text''),
                SetAttr (Field (Field (get_ref H 2 active_object) ''data'') ''body'')
                  (VStr (''JALEN'' @ newline @ ''EDUSEI''))]
          \<and> filter is_print (snd (glass_script H [])) = glass_final_prints H)"
proof -
  from assms have nosvg: "\<not> use_svg H"
    by (simp add: use_svg_def)
  have noimp: "list_all (\<lambda>ev. \<not> is_svg_import ev) (snd (glass_script H []))"
    using nosvg by (rule glass_script_no_import)
  have raised: "fst (glass_script H []) = Inl e \<longrightarrow> host_raised H e"
  proof
    assume "fst (glass_script H []) = Inl e"
    then have "glass_script H [] = (Inl e, snd (glass_script H []))"
      by (cases "glass_script H []") simp
    then have "host_raised H e \<or> (use_svg H \<and> e = no_curves_error H)"
      by (rule fails_onlyD [OF glass_script_failures])
    with nosvg show "host_raised H e" by simp
  qed
  have "quiet H \<longrightarrow>
          fst (glass_script H []) = Inr ()
          \<and> take 4 (snd (glass_script H [])) =
               [read_factory_settings, text_add_op,
                SetAttr (Field (get_ref H 2 active_object) ''name'') (VStr ''JalenEdusei_Text''),
                SetAttr (Field (Field (get_ref H 2 active_object) ''data'') ''body'')
                  (VStr (''JALEN'' @ newline @ ''EDUSEI''))]
          \<and> filter is_print (snd (glass_script H [])) = glass_final_prints H"
  proof
    assume q: "quiet H"
    obtain x tr where "glass_script H [] = (Inr x, tr)"
      using succeedsD [OF glass_script_succeeds [OF q nosvg]] by blast
    then have "fst (glass_script H []) = Inr ()" by simp
    then show "fst (glass_script H []) = Inr ()
          \<and> take 4 (snd (glass_script H [])) =
               [read_factory_settings, text_add_op,
                SetAttr (Field (get_ref H 2 active_object) ''name'') (VStr ''JalenEdusei_Text''),
                SetAttr (Field (Field (get_ref H 2 active_object) ''data'') ''body'')
                  (VStr (''JALEN'' @ newline @ ''EDUSEI''))]
          \<and> filter is_print (snd (glass_script H [])) = glass_final_prints H"
      using glass_script_text_quiet [OF q nosvg] by simp
  qed
  with noimp raised show ?thesis by blast
qed

text \<open>
  C8, witness: the PNG argument.
\<close>

theorem non_svg_argument_falls_back_to_text_witness:
  "script_args png_arg = [''art/logo.png'']
   \<and> \<not> (endswith ''art/logo.png'' ''.svg'' \<and> isfile png_arg ''art/logo.png'')
   \<and> quiet png_arg
   \<and> fst (glass_script png_arg []) = Inr ()
   \<and> snd (glass_script png_arg []) ! 3 =
        SetAttr (Field (Field (Handle 2) ''data'') ''body'') (VStr (''JALEN'' @ newline @ ''EDUSEI''))"
proof -
  have "take 4 (snd (glass_script png_arg [])) ! 3 =
        SetAttr (Field (Field (Handle 2) ''data'') ''body'') (VStr (''JALEN'' @ newline @ ''EDUSEI''))"
    using non_svg_argument_falls_back_to_text [of png_arg "''art/logo.png''" "[]"]
    by (simp add: endswith_def png_arg_def [THEN arg_cong, of get_ref])
  moreover have "fst (glass_script png_arg []) = Inr ()"
    using non_svg_argument_falls_back_to_text [of png_arg "''art/logo.png''" "[]"]
    by (simp add: endswith_def)
  ultimately show ?thesis
    by (simp add: endswith_def)
qed

lemma after_invoke:
  assumes "\<And>u. emits P (f u)"
  shows "\<exists>ext. snd (bind (invoke H ev) f tr) = tr @ [ev] @ ext"
proof (cases "raises H (length tr) ev")
  case None
  obtain ext where "snd (f () (tr @ [ev])) = (tr @ [ev]) @ ext"
    using appends_only [OF assms] by blast
  with None show ?thesis by simp
next
  case (Some e)
  then show ?thesis by simp
qed

lemma bind_extends:
  assumes "\<And>x. emits P (f x)"
  shows "\<exists>ext. snd (bind m f tr) = snd (m tr) @ ext"
proof (cases "m tr")
  case (Pair r t)
  show ?thesis
  proof (cases r)
    case (Inl e)
    with Pair show ?thesis by (simp add: bind_def)
  next
    case (Inr x)
    obtain ext where "snd (f x t) = t @ ext"
      using appends_only [OF assms] by blast
    with Pair Inr show ?thesis by (simp add: bind_def)
  qed
qed

lemma create_from_svg_start:
  "\<exists>ext. snd (create_from_svg H p tr) = tr @ [svg_import_op p] @ ext"
  unfolding create_from_svg_def bevel_spline_def
  by (rule after_invoke [where P = "\<lambda>ev. True"]) (intro emits_rules; simp)

lemma glass_script_svg_start:
  assumes "use_svg H" and "raises H 0 read_factory_settings = None"
  shows "take 2 (snd (glass_script H [])) = [read_factory_settings, svg_import_op (hd (script_args H))]"
proof -
  obtain a where a: "snd (create_from_svg H (hd (script_args H)) [read_factory_settings]) =
      [read_factory_settings] @ [svg_import_op (hd (script_args H))] @ a"
    using create_from_svg_start by blast
  obtain b where "snd (bind (create_from_svg H (hd (script_args H))) (glass_finish H) [read_factory_settings])
      = snd (create_from_svg H (hd (script_args H)) [read_factory_settings]) @ b"
    using bind_extends [where f = "glass_finish H" and P = "\<lambda>ev. True", OF glass_finish_appends]
    by blast
  with a assms show ?thesis
    by (simp add: glass_script_def glass_main_def)
qed

text \<open>
  C5, as the code has it. Every SVG import the logo script performs has the first argument
  after \<^verbatim>\<open>--\<close> as its path, and is performed only when that argument ends with \<^verbatim>\<open>.svg\<close> and
  names a file; then the import is the first thing \<^verbatim>\<open>main\<close> does. The other two scripts
  never import an SVG.
\<close>

theorem svg_argument_is_import_path:
  "list_all (\<lambda>ev. is_svg_import ev \<longrightarrow> use_svg H \<and> ev = svg_import_op (hd (script_args H)))
     (snd (glass_script H []))
   \<and> (use_svg H \<and> raises H 0 read_factory_settings = None \<longrightarrow>
        take 2 (snd (glass_script H [])) = [read_factory_settings, svg_import_op (hd (script_args H))])
   \<and> list_all (\<lambda>ev. \<not> is_svg_import ev) (snd (scene_main H []))
   \<and> list_all (\<lambda>ev. \<not> is_svg_import ev) (snd (video_main H []))"
  using emits_run [OF glass_script_imports] emits_run [OF scene_main_no_import]
    emits_run [OF video_main_no_import] glass_script_svg_start
  by blast

text \<open>
  C5, witness: the SVG argument.
\<close>

theorem svg_argument_is_import_path_witness:
  "use_svg svg_arg \<and> raises svg_arg 0 read_factory_settings = None
   \<and> hd (script_args svg_arg) = ''art/logo.svg''
   \<and> take 2 (snd (glass_script svg_arg [])) = [read_factory_settings, svg_import_op ''art/logo.svg'']"
  using svg_argument_is_import_path [of svg_arg] by simp

lemma filter_none: "list_all (\<lambda>x. \<not> P x) xs \<Longrightarrow> filter P xs = []"
  by (induction xs) auto

text \<open>
  C5 as stated fails: with the argument \<^verbatim>\<open>art/logo.png\<close> after \<^verbatim>\<open>--\<close> (a file that exists) the
  script performs no SVG import at all.
\<close>

theorem png_argument_is_not_imported:
  "script_args png_arg = [''art/logo.png''] \<and> isfile png_arg ''art/logo.png''
   \<and> filter is_svg_import (snd (glass_script png_arg [])) = []
   \<and> fst (glass_script png_arg []) = Inr ()"
proof -
  have "filter is_svg_import (snd (glass_script png_arg [])) = []"
    by (rule filter_none) (rule glass_script_no_import, simp)
  moreover obtain x tr where "glass_script png_arg [] = (Inr x, tr)"
    using succeedsD [OF glass_script_succeeds [of png_arg]] by auto
  ultimately show ?thesis by simp
qed

lemma scene_main_reaches_export:
  assumes "quiet H"
  shows "scene_export_op H \<in> set (snd (scene_main H []))"
proof -
  obtain x tr where run: "scene_main H [] = (Inr x, tr)"
    using succeedsD [OF scene_main_succeeds [OF assms]] by blast
  have eq: "filter (\<lambda>ev. \<not> is_print ev) tr
            = [scene_makedirs H, scene_export_op H, scene_getsize H]"
    using scene_main_quiet [OF assms] by (simp add: wp_def run)
  have "scene_export_op H \<in> set (filter (\<lambda>ev. \<not> is_print ev) tr)"
    by (subst eq) simp
  with filter_is_subset have "scene_export_op H \<in> set tr"
    by (rule subsetD)
  then show ?thesis
    by (simp add: run)
qed

text \<open>
  C6: every export operator call of the scene-export script and of the logo script, and
  every write of the render output path by the video script, names the fixed path below the
  project root; on a host that does not raise, the scripts do make that call or write.
\<close>

theorem output_paths_fixed:
  "list_all (exports_to (under_root (project_root H) ''public/models/jaleneduseiwhite.glb''))
     (snd (scene_main H []))
   \<and> list_all (exports_to (under_root (project_root H) ''public/models/jalen_edusei_glass.glb''))
       (snd (glass_script H []))
   \<and> list_all (renders_to (under_root (project_root H) ''public/videos/jalenedusei_animation_####.png''))
       (snd (video_main H []))
   \<and> (quiet H \<longrightarrow>
        scene_export_op H \<in> set (snd (scene_main H []))
        \<and> SetAttr (Field render_settings ''filepath'') (VStr (png_output H)) \<in> set (snd (video_main H []))
        \<and> (\<not> use_svg H \<longrightarrow> glass_export_op H \<in> set (snd (glass_script H []))))"
proof -
  have a: "list_all (exports_to (under_root (project_root H) ''public/models/jaleneduseiwhite.glb''))
     (snd (scene_main H []))"
    unfolding scene_out_path_fixed [symmetric] by (rule emits_run [OF scene_main_exports])
  have b: "list_all (exports_to (under_root (project_root H) ''public/models/jalen_edusei_glass.glb''))
       (snd (glass_script H []))"
    unfolding glass_out_path_fixed [symmetric] by (rule emits_run [OF glass_script_exports])
  have c: "list_all (renders_to (under_root (project_root H) ''public/videos/jalenedusei_animation_####.png''))
       (snd (video_main H []))"
    unfolding png_output_fixed [symmetric] by (rule emits_run [OF video_main_renders_to])
  have d: "quiet H \<longrightarrow>
        scene_export_op H \<in> set (snd (scene_main H []))
        \<and> SetAttr (Field render_settings ''filepath'') (VStr (png_output H)) \<in> set (snd (video_main H []))
        \<and> (\<not> use_svg H \<longrightarrow> glass_export_op H \<in> set (snd (glass_script H [])))"
    using scene_main_reaches_export [of H] video_main_sets_output [of H]
      glass_script_reaches_export [of H]
    by blast
  from a b c d show ?thesis by blast
qed

lemma studio_project_root: "project_root studio = ''/home/jalen/site''"
  by (simp add: project_root_def get_script_dir_def dirname_def endswith_def startswith_def)

text \<open>
  C6, witness: the host \<open>studio\<close>, whose project root is \<^verbatim>\<open>/home/jalen/site\<close>.
\<close>

theorem output_paths_fixed_witness:
  "quiet studio \<and> project_root studio = ''/home/jalen/site''
   \<and> scene_out_path studio = ''/home/jalen/site/public/models/jaleneduseiwhite.glb''
   \<and> scene_export_op studio \<in> set (snd (scene_main studio []))
   \<and> png_output studio = ''/home/jalen/site/public/videos/jalenedusei_animation_####.png''
   \<and> SetAttr (Field render_settings ''filepath'') (VStr (png_output studio)) \<in> set (snd (video_main studio []))
   \<and> glass_out_path studio = ''/home/jalen/site/public/models/jalen_edusei_glass.glb''
   \<and> glass_export_op studio \<in> set (snd (glass_script studio []))"
  using output_paths_fixed [of studio]
  by (simp add: studio_project_root scene_out_path_fixed glass_out_path_fixed png_output_fixed
      under_root_def endswith_def script_args_def use_svg_def)

section \<open>Properties of blender_jalen_edusei_glass.py: the order of the steps\<close>

lemma follow_append:
  "follow ord p (a @ b) = (case follow ord p a of None \<Rightarrow> None | Some q \<Rightarrow> follow ord q b)"
  by (induction a arbitrary: p) (auto split: option.splits)

lemma follow_single: "follow code_order p [ev] = (if allowed p ev then Some (after p ev) else None)"
  by (simp add: allowed_def after_def split: option.splits)

lemma phaseD:
  "phase p m q \<Longrightarrow> \<exists>ext. snd (m tr) = tr @ ext \<and>
        (case fst (m tr) of Inr x \<Rightarrow> follow code_order p ext = Some q
         | Inl e \<Rightarrow> follow code_order p ext \<noteq> None)"
  by (simp add: phase_def)

lemma phase_ret: "phase p (ret x) p"
  by (simp add: phase_def ret_def)

lemma phase_throw: "phase p (throw e) q"
  by (simp add: phase_def throw_def)

lemma phase_ask: "phase p (ask f) p"
  by (simp add: phase_def ask_def)

lemma phase_say: "phase p (say f) p"
  by (simp add: phase_def say_def step_of_def)

lemma phase_emit: "allowed p ev \<Longrightarrow> phase p (emit ev) (after p ev)"
  by (simp add: phase_def emit_def follow_single del: follow.simps)

lemma phase_invoke: "allowed p ev \<Longrightarrow> phase p (invoke H ev) (after p ev)"
  by (simp add: phase_def invoke_def follow_single del: follow.simps split: option.splits)

lemma phase_invoke_ref: "allowed p ev \<Longrightarrow> phase p (invoke_ref H ev) (after p ev)"
  by (simp add: phase_def invoke_ref_def follow_single del: follow.simps split: option.splits)

lemma phase_bind:
  assumes m: "phase p m q" and f: "\<And>x. phase q (f x) r"
  shows "phase p (bind m f) r"
  unfolding phase_def
proof
  fix tr
  obtain a where a: "snd (m tr) = tr @ a"
      "case fst (m tr) of Inr x \<Rightarrow> follow code_order p a = Some q
         | Inl e \<Rightarrow> follow code_order p a \<noteq> None"
    using phaseD [OF m] by blast
  show "\<exists>ext. snd (bind m f tr) = tr @ ext \<and>
        (case fst (bind m f tr) of Inr x \<Rightarrow> follow code_order p ext = Some r
         | Inl e \<Rightarrow> follow code_order p ext \<noteq> None)"
  proof (cases "fst (m tr)")
    case (Inl e)
    then have "bind m f tr = (Inl e, tr @ a)"
      using a(1) by (cases "m tr") (simp add: bind_def)
    with a(2) Inl show ?thesis by simp
  next
    case (Inr x)
    with a(2) have pa: "follow code_order p a = Some q" by simp
    obtain b where b: "snd (f x (tr @ a)) = (tr @ a) @ b"
      "case fst (f x (tr @ a)) of Inr y \<Rightarrow> follow code_order q b = Some r
         | Inl e \<Rightarrow> follow code_order q b \<noteq> None"
      using phaseD [OF f] by blast
    have run: "bind m f tr = f x (tr @ a)"
      using Inr a(1) by (cases "m tr") (simp add: bind_def)
    have "snd (bind m f tr) = tr @ (a @ b)"
      using b(1) by (simp add: run)
    moreover have "case fst (bind m f tr) of Inr y \<Rightarrow> follow code_order p (a @ b) = Some r
         | Inl e \<Rightarrow> follow code_order p (a @ b) \<noteq> None"
      using b(2) pa by (simp add: run follow_append split: sum.splits)
    ultimately show ?thesis by blast
  qed
qed

lemma phase_only_if: "(b \<Longrightarrow> phase p m p) \<Longrightarrow> phase p (only_if b m) p"
  by (simp add: only_if_def phase_ret)

lemma phase_if: "(b \<Longrightarrow> phase p m q) \<Longrightarrow> (\<not> b \<Longrightarrow> phase p m' q) \<Longrightarrow> phase p (if b then m else m') q"
  by simp

lemma phase_for_each: "(\<And>x. x \<in> set xs \<Longrightarrow> phase p (body x) p) \<Longrightarrow> phase p (for_each xs body) p"
  by (induction xs) (auto intro: phase_ret phase_bind)

lemma phase_eq: "phase p m q' \<Longrightarrow> q' = q \<Longrightarrow> phase p m q"
  by simp

lemma phase_emit_same: "step_of ev = None \<Longrightarrow> phase p (emit ev) p"
  using phase_emit [of p ev] by (simp add: allowed_def after_def)

lemma phase_invoke_same: "step_of ev = None \<Longrightarrow> phase p (invoke H ev) p"
  using phase_invoke [of p ev] by (simp add: allowed_def after_def)

lemma phase_bind_emit:
  "allowed p ev \<Longrightarrow> (\<And>x. phase (after p ev) (f x) r) \<Longrightarrow> phase p (bind (emit ev) f) r"
  by (rule phase_bind [OF phase_emit])

lemma phase_bind_invoke:
  "allowed p ev \<Longrightarrow> (\<And>x. phase (after p ev) (f x) r) \<Longrightarrow> phase p (bind (invoke H ev) f) r"
  by (rule phase_bind [OF phase_invoke])

lemma phase_bind_invoke_ref:
  "allowed p ev \<Longrightarrow> (\<And>x. phase (after p ev) (f x) r) \<Longrightarrow> phase p (bind (invoke_ref H ev) f) r"
  by (rule phase_bind [OF phase_invoke_ref])

lemma phase_bind_ask: "(\<And>x. phase p (f x) r) \<Longrightarrow> phase p (bind (ask q) f) r"
  by (rule phase_bind [OF phase_ask])

lemma phase_bind_say: "(\<And>x. phase p (f x) r) \<Longrightarrow> phase p (bind (say q) f) r"
  by (rule phase_bind [OF phase_say])

lemma phase_bind_only_if:
  "(b \<Longrightarrow> phase p m p) \<Longrightarrow> (\<And>x. phase p (f x) r) \<Longrightarrow> phase p (bind (only_if b m) f) r"
  by (rule phase_bind [OF phase_only_if])

lemma phase_bind_for_each:
  "(\<And>x. x \<in> set xs \<Longrightarrow> phase p (body x) p) \<Longrightarrow> (\<And>u. phase p (f u) r)
     \<Longrightarrow> phase p (bind (for_each xs body) f) r"
  by (rule phase_bind [OF phase_for_each])

lemma phase_emit_to: "allowed p ev \<Longrightarrow> after p ev = r \<Longrightarrow> phase p (emit ev) r"
  using phase_emit [of p ev] by simp

lemma phase_invoke_to: "allowed p ev \<Longrightarrow> after p ev = r \<Longrightarrow> phase p (invoke H ev) r"
  using phase_invoke [of p ev H] by simp

lemma phase_ask_to: "p = r \<Longrightarrow> phase p (ask q) r"
  using phase_ask [of p q] by simp

lemma phase_ret_to: "p = r \<Longrightarrow> phase p (ret x) r"
  using phase_ret [of p x] by simp

lemma phase_for_each_to:
  "(\<And>x. x \<in> set xs \<Longrightarrow> phase p (body x) p) \<Longrightarrow> p = r \<Longrightarrow> phase p (for_each xs body) r"
  using phase_for_each [of xs p body] by simp

lemma phase_bind_if:
  "(b \<Longrightarrow> phase p (bind m f) r) \<Longrightarrow> (\<not> b \<Longrightarrow> phase p (bind m' f) r)
     \<Longrightarrow> phase p (bind (if b then m else m') f) r"
  by simp

lemma phase_bind_bind: "phase p (bind m (\<lambda>x. bind (f x) g)) r \<Longrightarrow> phase p (bind (bind m f) g) r"
  by (simp add: bind_assoc)

lemma phase_bind_ret: "phase p (f x) r \<Longrightarrow> phase p (bind (ret x) f) r"
  by (simp add: phase_def)

lemmas phase_rules = phase_bind_if phase_bind_bind phase_bind_ret phase_bind_emit phase_bind_invoke phase_bind_invoke_ref phase_bind_ask
  phase_bind_say phase_bind_only_if phase_bind_for_each phase_emit_to phase_invoke_to
  phase_ask_to phase_ret_to phase_for_each_to phase_throw phase_if

lemmas phase_simps = allowed_def after_def step_of_def op_defs material_nodes_def world_nodes_def

lemma create_text_logo_phase: "phase 0 (create_text_logo H) 2"
  unfolding create_text_logo_def
  by (intro phase_rules) (simp_all add: phase_simps)

lemma create_from_svg_phase: "phase 0 (create_from_svg H path) 2"
  unfolding create_from_svg_def bevel_spline_def
  by (intro phase_rules) (simp_all add: phase_simps)

lemma add_camera_and_lights_phase: "phase 2 (add_camera_and_lights H) 3"
  unfolding add_camera_and_lights_def
  by (intro phase_rules) (simp_all add: phase_simps)

lemma add_glass_material_phase: "phase 3 (add_glass_material H logo dark) 3"
  unfolding add_glass_material_def
  by (intro phase_rules) (simp_all add: phase_simps)

lemma uv_unwrap_phase: "phase 3 (uv_unwrap H logo) 4"
  unfolding uv_unwrap_def
  by (intro phase_rules) (simp_all add: phase_simps)

lemma setup_world_phase: "phase 4 (setup_world H dark) 5"
  unfolding setup_world_def
  by (intro phase_rules) (simp_all add: phase_simps)

lemma add_rotation_animation_phase: "phase 5 (add_rotation_animation H logo n) 7"
  unfolding add_rotation_animation_def smooth_fcurve_def smooth_keyframe_def
  by (intro phase_rules) (simp_all add: phase_simps)

lemma glass_export_phase: "phase 7 (glass_export H) 8"
  unfolding glass_export_def
  by (intro phase_rules) (simp_all add: phase_simps)

lemma setup_scene_phase: "phase 2 (setup_scene H logo dark) 5"
  unfolding setup_scene_def
  by (intro phase_bind [OF add_camera_and_lights_phase] phase_bind [OF add_glass_material_phase]
      phase_bind [OF uv_unwrap_phase] setup_world_phase)

lemma phase_bind_invoke_same:
  "step_of ev = None \<Longrightarrow> (\<And>x. phase p (f x) r) \<Longrightarrow> phase p (bind (invoke H ev) f) r"
  by (rule phase_bind [OF phase_invoke_same])

lemma phase_bind_emit_same:
  "step_of ev = None \<Longrightarrow> (\<And>x. phase p (f x) r) \<Longrightarrow> phase p (bind (emit ev) f) r"
  by (rule phase_bind [OF phase_emit_same])

lemma glass_finish_phase: "phase 2 (glass_finish H logo) 8"
  unfolding glass_finish_def
  by (intro phase_bind_invoke_same phase_bind_emit_same phase_bind [OF setup_scene_phase]
      phase_bind [OF add_rotation_animation_phase] glass_export_phase)
    (simp_all add: phase_simps)

lemma glass_script_phase: "phase 0 (glass_script H) 8"
  unfolding glass_script_def glass_main_def
  by (intro phase_bind_invoke_same phase_bind [where q = 2] phase_if create_text_logo_phase
      create_from_svg_phase glass_finish_phase)
    (simp_all add: phase_simps read_factory_settings_def)

lemma bind_returns:
  assumes "bind m f tr = (Inr y, t)"
  shows "\<exists>x t'. m tr = (Inr x, t') \<and> f x t' = (Inr y, t)"
proof (cases "m tr")
  case (Pair r t')
  with assms show ?thesis
    by (cases r) (simp_all add: bind_def)
qed

lemma ends_with_bind:
  assumes "\<And>x. ends_with tail (f x)"
  shows "ends_with tail (bind m f)"
  unfolding ends_with_def
proof (intro allI impI)
  fix tr y t
  assume run: "bind m f tr = (Inr y, t)"
  from bind_returns [OF run] obtain x t' where "m tr = (Inr x, t')" "f x t' = (Inr y, t)"
    by (elim exE conjE)
  then show "\<exists>pre. t = pre @ tail"
    using assms [of x] by (auto simp: ends_with_def)
qed

lemma glass_export_ends: "ends_with (glass_export_op H # glass_final_prints H) (glass_export H)"
  by (auto simp: ends_with_def glass_export_def glass_final_prints_def prim_defs
      split: option.splits)

lemma glass_script_ends: "ends_with (glass_export_op H # glass_final_prints H) (glass_script H)"
  unfolding glass_script_def glass_main_def glass_finish_def
  by (intro ends_with_bind glass_export_ends)

lemma breaks_first:
  assumes m: "breaks_claimed_order m" and f: "\<And>x. emits P (f x)"
  shows "breaks_claimed_order (bind m f)"
  unfolding breaks_claimed_order_def
proof
  fix tr
  have "\<exists>a. snd (m tr) = tr @ a \<and> (\<forall>p. follow claimed_order p a = None)"
    using m unfolding breaks_claimed_order_def by blast
  then obtain a where a: "snd (m tr) = tr @ a" "\<forall>p. follow claimed_order p a = None"
    by blast
  obtain b where "snd (bind m f tr) = snd (m tr) @ b"
    using bind_extends [of P f m tr, OF f] by blast
  with a have "snd (bind m f tr) = tr @ (a @ b)" "\<forall>p. follow claimed_order p (a @ b) = None"
    by (simp_all add: follow_append)
  then show "\<exists>ext. snd (bind m f tr) = tr @ ext \<and> (\<forall>p. follow claimed_order p ext = None)"
    by blast
qed

lemma breaks_later:
  assumes s: "succeeds m" and e: "emits P m" and f: "\<And>x. breaks_claimed_order (f x)"
  shows "breaks_claimed_order (bind m f)"
  unfolding breaks_claimed_order_def
proof
  fix tr
  obtain x a where a: "m tr = (Inr x, tr @ a)"
    using run_split [OF e s] by blast
  have "\<exists>b. snd (f x (tr @ a)) = (tr @ a) @ b \<and> (\<forall>p. follow claimed_order p b = None)"
    using f [of x] unfolding breaks_claimed_order_def by blast
  then obtain b where b: "snd (f x (tr @ a)) = (tr @ a) @ b" "\<forall>p. follow claimed_order p b = None"
    by blast
  have "snd (bind m f tr) = tr @ (a @ b)"
    using a b(1) by (simp add: bind_def)
  moreover have "\<forall>p. follow claimed_order p (a @ b) = None"
    using b(2) by (simp add: follow_append split: option.splits)
  ultimately show "\<exists>ext. snd (bind m f tr) = tr @ ext \<and> (\<forall>p. follow claimed_order p ext = None)"
    by blast
qed

lemma step_of_simps:
  "step_of (Print parts) = None"
  "step_of (Os n a k) = None"
  "step_of (SetAttr (Field q f) v) = (if f = ''parent'' then Some Parenting else None)"
  "step_of (Op ''object.select_all'' kw) = None"
  "step_of (Op ''mesh.select_all'' kw) = None"
  "step_of (Op ''object.mode_set'' kw) = None"
  "step_of (Op ''uv.smart_project'' kw) = Some UVUnwrap"
  "step_of (Meth r ''select_set'' a k) = None"
  "step_of (Meth r ''clear'' a k) = None"
  "step_of (Meth r ''new'' [VStr ''World''] k) = None"
  "step_of (Meth r ''new'' [VStr ''ShaderNodeOutputWorld''] k) = Some WorldNodes"
  by (simp_all add: step_of_def material_nodes_def world_nodes_def)

lemma uv_then_world_follow:
  assumes "quiet H"
  shows "follow claimed_order p
           (drop (length tr) (snd (bind (uv_unwrap H logo) (\<lambda>_. setup_world H dark) tr))) = None"
  using assms
  by (simp add: uv_unwrap_def setup_world_def prim_defs step_of_simps smart_project_op_def)

lemma uv_then_world_appends: "emits (\<lambda>ev. True) (bind (uv_unwrap H logo) (\<lambda>_. setup_world H dark))"
  unfolding uv_unwrap_def setup_world_def
  by (intro emits_rules) simp_all

lemma uv_then_world_breaks:
  assumes "quiet H"
  shows "breaks_claimed_order (bind (uv_unwrap H logo) (\<lambda>_. setup_world H dark))"
  unfolding breaks_claimed_order_def
proof
  fix tr
  obtain ext where ext: "snd (bind (uv_unwrap H logo) (\<lambda>_. setup_world H dark) tr) = tr @ ext"
    using appends_only [OF uv_then_world_appends] by blast
  have "\<forall>p. follow claimed_order p ext = None"
    using uv_then_world_follow [OF assms, of _ tr logo dark] by (simp add: ext)
  with ext show "\<exists>ext. snd (bind (uv_unwrap H logo) (\<lambda>_. setup_world H dark) tr) = tr @ ext
      \<and> (\<forall>p. follow claimed_order p ext = None)"
    by blast
qed

lemma scene_part_succeeds:
  assumes "quiet H"
  shows "succeeds (add_camera_and_lights H)" and "succeeds (add_glass_material H logo dark)"
  unfolding add_camera_and_lights_def add_glass_material_def
  using assms by (intro succeeds_rules; simp)+

lemma scene_part_appends:
  "emits (\<lambda>ev. True) (add_camera_and_lights H)" "emits (\<lambda>ev. True) (add_glass_material H logo dark)"
  "emits (\<lambda>ev. True) (add_rotation_animation H logo n)" "emits (\<lambda>ev. True) (glass_export H)"
  "emits (\<lambda>ev. True) (create_text_logo H)"
  unfolding glass_defs
  by (intro emits_rules; simp)+

lemma setup_scene_breaks:
  assumes q: "quiet H"
  shows "breaks_claimed_order (setup_scene H logo dark)"
  unfolding setup_scene_def
  by (rule breaks_later [OF scene_part_succeeds(1) [OF q] scene_part_appends(1)],
      rule breaks_later [OF scene_part_succeeds(2) [OF q] scene_part_appends(2)],
      rule uv_then_world_breaks [OF q])

lemma glass_finish_breaks:
  assumes q: "quiet H"
  shows "breaks_claimed_order (glass_finish H logo)"
  unfolding glass_finish_def
  by (intro breaks_later [where P = "\<lambda>ev. True"] breaks_first [OF setup_scene_breaks [OF q],
        where P = "\<lambda>ev. True"]
      succeeds_invoke succeeds_emit emits_invoke emits_emit emits_bind scene_part_appends q)
    simp_all

lemma glass_script_breaks:
  assumes q: "quiet H" and nosvg: "\<not> use_svg H"
  shows "follow claimed_order 0 (snd (glass_script H [])) = None"
proof -
  have "breaks_claimed_order (glass_script H)"
    unfolding glass_script_def glass_main_def
    by (simp only: nosvg if_False)
      (intro breaks_later [where P = "\<lambda>ev. True"] succeeds_invoke emits_invoke
        create_text_logo_succeeds scene_part_appends glass_finish_breaks q, simp_all)
  then show ?thesis
    unfolding breaks_claimed_order_def
    by (metis append_Nil)
qed

text \<open>
  C3, as the code has it. In every run of the logo script the steps come in this order:
  geometry, conversion to a mesh, camera, lights and material nodes, UV unwrap, world nodes,
  parenting, keyframes, export; no step is skipped and none is returned to. A run that
  returns has gone through all of them, and ends with the export operator call followed
  only by the two closing prints.
\<close>

theorem pipeline_steps_in_code_order:
  "follow code_order 0 (snd (glass_script H [])) \<noteq> None
   \<and> (fst (glass_script H []) = Inr () \<longrightarrow>
        follow code_order 0 (snd (glass_script H [])) = Some (code_order Export)
        \<and> (\<exists>pre. snd (glass_script H []) = pre @ glass_export_op H # glass_final_prints H))"
proof -
  have order: "\<exists>ext. snd (glass_script H []) = [] @ ext \<and>
        (case fst (glass_script H []) of Inr x \<Rightarrow> follow code_order 0 ext = Some 8
         | Inl e \<Rightarrow> follow code_order 0 ext \<noteq> None)"
    by (rule phaseD [OF glass_script_phase])
  have last: "fst (glass_script H []) = Inr () \<longrightarrow>
        (\<exists>pre. snd (glass_script H []) = pre @ glass_export_op H # glass_final_prints H)"
  proof
    assume "fst (glass_script H []) = Inr ()"
    then have "glass_script H [] = (Inr (), snd (glass_script H []))"
      by (cases "glass_script H []") simp
    then show "\<exists>pre. snd (glass_script H []) = pre @ glass_export_op H # glass_final_prints H"
      using glass_script_ends [of H] unfolding ends_with_def by blast
  qed
  from order last show ?thesis
    by (auto split: sum.splits)
qed

lemma studio_args [simp]: "script_args studio = []" "\<not> use_svg studio"
  by (simp_all add: script_args_def use_svg_def)

text \<open>
  C3, witness: the host \<open>studio\<close>.
\<close>

theorem pipeline_steps_in_code_order_witness:
  "fst (glass_script studio []) = Inr ()
   \<and> follow code_order 0 (snd (glass_script studio [])) = Some 8"
proof -
  obtain x tr where "glass_script studio [] = (Inr x, tr)"
    using succeedsD [OF glass_script_succeeds [of studio]] by auto
  then have "fst (glass_script studio []) = Inr ()" by simp
  then show ?thesis
    using pipeline_steps_in_code_order [of studio] by simp
qed

text \<open>
  C3 as stated fails: on the host \<open>studio\<close> the script returns, and its trace does not
  follow the order of the specification, because \<^verbatim>\<open>setup_scene\<close> unwraps the UVs (lines 119 to
  128) before it builds the world nodes (lines 131 to 143).
\<close>

theorem world_nodes_built_after_uv_unwrap:
  "fst (glass_script studio []) = Inr ()
   \<and> follow claimed_order 0 (snd (glass_script studio [])) = None"
proof -
  obtain x tr where "glass_script studio [] = (Inr x, tr)"
    using succeedsD [OF glass_script_succeeds [of studio]] by auto
  then have "fst (glass_script studio []) = Inr ()" by simp
  moreover have "follow claimed_order 0 (snd (glass_script studio [])) = None"
    by (rule glass_script_breaks) simp_all
  ultimately show ?thesis by simp
qed

section \<open>Properties of blender_jalen_edusei_glass.py: the rotation\<close>

lemma smooth_keyframes: "for_each kps smooth_keyframe tr = (Inr (), tr @ concat (map keyframe_writes kps))"
  by (induction kps arbitrary: tr) (simp_all add: smooth_keyframe_def keyframe_writes_def prim_defs)

lemma smooth_fcurve_run:
  "smooth_fcurve H fc tr =
     (Inr (), tr @ concat (map keyframe_writes (get_refs H (length tr) (Field fc ''keyframe_points''))))"
  by (simp add: smooth_fcurve_def smooth_keyframes)

lemma length_keyframe_writes: "length (concat (map keyframe_writes kps)) = 3 * length kps"
  by (induction kps) (simp_all add: keyframe_writes_def)

lemma smooth_fcurves:
  "for_each fcs (smooth_fcurve H) tr = (Inr (), tr @ smoothing H (length tr) fcs)"
proof (induction fcs arbitrary: tr)
  case Nil
  show ?case by (simp add: ret_def)
next
  case (Cons fc fcs)
  define ext where "ext = concat (map keyframe_writes (get_refs H (length tr) (Field fc ''keyframe_points'')))"
  have step: "smooth_fcurve H fc tr = (Inr (), tr @ ext)"
    unfolding ext_def by (rule smooth_fcurve_run)
  have "for_each (fc # fcs) (smooth_fcurve H) tr = for_each fcs (smooth_fcurve H) (tr @ ext)"
    by (simp add: bind_def step)
  also have "\<dots> = (Inr (), (tr @ ext) @ smoothing H (length (tr @ ext)) fcs)"
    by (rule Cons.IH)
  finally show ?case
    by (simp add: ext_def length_keyframe_writes)
qed

lemma add_rotation_animation_returns:
  assumes "add_rotation_animation H logo frame_end tr = (Inr y, t)"
  shows "t = tr @ rotation_events H (length tr) logo frame_end"
  using assms
  by (simp add: add_rotation_animation_def rotation_events_def empty_add_op_def bind_def
      smooth_fcurves prim_defs eval_nat_numeral split: option.splits)

lemma yields_bind: "(\<And>x. yields R (f x)) \<Longrightarrow> yields R (bind m f)"
  unfolding yields_def
proof (intro allI impI)
  fix tr y t
  assume f: "\<And>x. \<forall>tr y t. f x tr = (Inr y, t) \<longrightarrow> R t" and run: "bind m f tr = (Inr y, t)"
  from bind_returns [OF run] obtain x t' where "m tr = (Inr x, t')" "f x t' = (Inr y, t)"
    by (elim exE conjE)
  with f [of x] show "R t" by blast
qed

lemma rotation_then_export:
  "yields (has_rotation H) (bind (add_rotation_animation H logo 120) (\<lambda>_. glass_export H))"
  unfolding yields_def
proof (intro allI impI)
  fix tr y t
  assume run: "bind (add_rotation_animation H logo 120) (\<lambda>_. glass_export H) tr = (Inr y, t)"
  from bind_returns [OF run] obtain x t' where
    rot: "add_rotation_animation H logo 120 tr = (Inr x, t')" and ex: "glass_export H t' = (Inr y, t)"
    by (elim exE conjE)
  have t': "t' = tr @ rotation_events H (length tr) logo 120"
    using rot by (rule add_rotation_animation_returns)
  obtain post where "snd (glass_export H t') = t' @ post"
    using appends_only [OF scene_part_appends(4)] by blast
  with ex t' have "t = tr @ rotation_events H (length tr) logo 120 @ post"
    by simp
  then show "has_rotation H t"
    unfolding has_rotation_def by blast
qed

lemma glass_script_has_rotation: "yields (has_rotation H) (glass_script H)"
  unfolding glass_script_def glass_main_def glass_finish_def
  by (intro yields_bind rotation_then_export)

text \<open>
  C10: a run of the logo script that returns contains, in this order: the creation of the
  empty, its name, the logo's parent set to the empty, \<^verbatim>\<open>frame_end\<close> set to 120, the empty's
  Euler rotation set to (0, 0, 0) and keyframed at frame 1, then set to (0, 6.283185307, 0)
  (the second component, Y) and keyframed at frame 120, and then, for every keyframe point
  of every F-curve of the empty's action, interpolation \<^verbatim>\<open>BEZIER\<close> and both handle types
  \<^verbatim>\<open>FREE\<close>.
\<close>

theorem rotation_keyframed_about_y:
  "fst (glass_script H []) = Inr () \<longrightarrow>
     (\<exists>pre logo post.
        snd (glass_script H []) =
          pre @
          [empty_add_op,
           SetAttr (Field (get_ref H (Suc (length pre)) active_object) ''name'') (VStr ''LogoAxis''),
           SetAttr (Field logo ''parent'') (VRef (get_ref H (Suc (length pre)) active_object)),
           SetAttr (Field scene ''frame_end'') (VInt 120),
           SetAttr (Field (get_ref H (Suc (length pre)) active_object) ''rotation_euler'')
             (VTup [VInt 0, VInt 0, VInt 0]),
           keyframe_insert (get_ref H (Suc (length pre)) active_object) 1,
           SetAttr (Field (get_ref H (Suc (length pre)) active_object) ''rotation_euler'')
             (VTup [VInt 0, VFloat 6.283185307, VInt 0]),
           keyframe_insert (get_ref H (Suc (length pre)) active_object) 120]
          @ smoothing H (length pre + 8)
              (get_refs H (length pre + 8)
                 (Field (Field (Field (get_ref H (Suc (length pre)) active_object)
                    ''animation_data'') ''action'') ''fcurves''))
          @ post)"
proof
  assume "fst (glass_script H []) = Inr ()"
  then have "glass_script H [] = (Inr (), snd (glass_script H []))"
    by (cases "glass_script H []") simp
  then have "has_rotation H (snd (glass_script H []))"
    using glass_script_has_rotation [of H] unfolding yields_def by blast
  then show "\<exists>pre logo post.
        snd (glass_script H []) =
          pre @
          [empty_add_op,
           SetAttr (Field (get_ref H (Suc (length pre)) active_object) ''name'') (VStr ''LogoAxis''),
           SetAttr (Field logo ''parent'') (VRef (get_ref H (Suc (length pre)) active_object)),
           SetAttr (Field scene ''frame_end'') (VInt 120),
           SetAttr (Field (get_ref H (Suc (length pre)) active_object) ''rotation_euler'')
             (VTup [VInt 0, VInt 0, VInt 0]),
           keyframe_insert (get_ref H (Suc (length pre)) active_object) 1,
           SetAttr (Field (get_ref H (Suc (length pre)) active_object) ''rotation_euler'')
             (VTup [VInt 0, VFloat 6.283185307, VInt 0]),
           keyframe_insert (get_ref H (Suc (length pre)) active_object) 120]
          @ smoothing H (length pre + 8)
              (get_refs H (length pre + 8)
                 (Field (Field (Field (get_ref H (Suc (length pre)) active_object)
                    ''animation_data'') ''action'') ''fcurves''))
          @ post"
    unfolding has_rotation_def rotation_events_def by simp
qed

lemma studio_smoothing:
  "smoothing studio n [Handle 10, Handle 11, Handle 12] =
     keyframe_writes (Index (Field (Handle 10) ''keyframe_points'') 0)
     @ keyframe_writes (Index (Field (Handle 10) ''keyframe_points'') 1)
     @ keyframe_writes (Index (Field (Handle 11) ''keyframe_points'') 0)
     @ keyframe_writes (Index (Field (Handle 11) ''keyframe_points'') 1)
     @ keyframe_writes (Index (Field (Handle 12) ''keyframe_points'') 0)
     @ keyframe_writes (Index (Field (Handle 12) ''keyframe_points'') 1)"
  by simp

text \<open>
  C10, witness: the host \<open>studio\<close>, with its three F-curves of two keyframe points.
\<close>

theorem rotation_keyframed_about_y_witness:
  "fst (glass_script studio []) = Inr ()
   \<and> SetAttr (Field scene ''frame_end'') (VInt 120) \<in> set (snd (glass_script studio []))
   \<and> SetAttr (Field (Index (Field (Handle 12) ''keyframe_points'') 1) ''interpolation'') (VStr ''BEZIER'')
        \<in> set (snd (glass_script studio []))"
proof -
  obtain x tr where "glass_script studio [] = (Inr x, tr)"
    using succeedsD [OF glass_script_succeeds [of studio]] by auto
  then have ok: "fst (glass_script studio []) = Inr ()" by simp
  with rotation_keyframed_about_y [of studio] obtain pre logo post where
    "snd (glass_script studio []) =
          pre @
          [empty_add_op,
           SetAttr (Field (get_ref studio (Suc (length pre)) active_object) ''name'') (VStr ''LogoAxis''),
           SetAttr (Field logo ''parent'') (VRef (get_ref studio (Suc (length pre)) active_object)),
           SetAttr (Field scene ''frame_end'') (VInt 120),
           SetAttr (Field (get_ref studio (Suc (length pre)) active_object) ''rotation_euler'')
             (VTup [VInt 0, VInt 0, VInt 0]),
           keyframe_insert (get_ref studio (Suc (length pre)) active_object) 1,
           SetAttr (Field (get_ref studio (Suc (length pre)) active_object) ''rotation_euler'')
             (VTup [VInt 0, VFloat 6.283185307, VInt 0]),
           keyframe_insert (get_ref studio (Suc (length pre)) active_object) 120]
          @ smoothing studio (length pre + 8)
              (get_refs studio (length pre + 8)
                 (Field (Field (Field (get_ref studio (Suc (length pre)) active_object)
                    ''animation_data'') ''action'') ''fcurves''))
          @ post"
    by blast
  then show ?thesis
    using ok by (simp add: keyframe_writes_def)
qed

end
